theory Spec2Isabelle
  imports Main
begin

section \<open>JavaScript values\<close>

text \<open>
  The three entry files of the volunteer API (\<^verbatim>\<open>server.js\<close> and its two
  deployment variants) configure one Express application. The values that flow through
  the error handler are plain JavaScript values: an error object is read through its
  properties \<^verbatim>\<open>name\<close>, \<^verbatim>\<open>status\<close>, \<^verbatim>\<open>message\<close> and
  \<^verbatim>\<open>errors\<close>, and a property that is not there reads as \<^verbatim>\<open>undefined\<close>.

  Numbers are the integers (HTTP status codes); \<^verbatim>\<open>NaN\<close> and fractions are left
  out. An object is an association list in which the first binding of a key is the one
  read. Strings are byte strings: an ASCII literal is itself, a Thai literal is given by
  its code points and their UTF-8 encoding.
\<close>

datatype jsval =
    JUndefined
  | JNull
  | JBool bool
  | JNum int
  | JStr string
  | JArr "jsval list"
  | JObj "(string \<times> jsval) list"

text \<open>What \<^verbatim>\<open>!v\<close>, \<^verbatim>\<open>v || w\<close> and \<^verbatim>\<open>if (v)\<close> test.\<close>

fun truthy :: "jsval \<Rightarrow> bool" where
  "truthy JUndefined = False"
| "truthy JNull = False"
| "truthy (JBool b) = b"
| "truthy (JNum n) = (n \<noteq> 0)"
| "truthy (JStr s) = (s \<noteq> [])"
| "truthy (JArr xs) = True"
| "truthy (JObj kv) = True"

definition js_or :: "jsval \<Rightarrow> jsval \<Rightarrow> jsval" where
  "js_or a b = (if truthy a then a else b)"

text \<open>
  The exceptions met here: a \<^verbatim>\<open>TypeError\<close> of the language, the
  \<^verbatim>\<open>RangeError\<close> of an invalid status code (\<^verbatim>\<open>ERR_HTTP_INVALID_STATUS_CODE\<close>),
  and the error of writing to a response whose head is out
  (\<^verbatim>\<open>ERR_HTTP_HEADERS_SENT\<close>).
\<close>

datatype exn = TypeError | RangeError | HeadersSent

text \<open>
  \<^verbatim>\<open>v | 0\<close>, which the platform applies to the status code before it writes the
  head: a number is taken modulo 4294967296 into the signed 32-bit range, \<^verbatim>\<open>undefined\<close>
  and \<^verbatim>\<open>null\<close> give 0, a boolean 0 or 1. What the language makes of a string, an
  array or an object (their conversion to a number, which may throw) is the parameter
  \<open>cv\<close>.
\<close>

definition wrap32 :: "int \<Rightarrow> int" where
  "wrap32 n = (n + 2147483648) mod 4294967296 - 2147483648"

fun to_int32 :: "(jsval \<Rightarrow> exn + int) \<Rightarrow> jsval \<Rightarrow> exn + int" where
  "to_int32 cv JUndefined = Inr 0"
| "to_int32 cv JNull = Inr 0"
| "to_int32 cv (JBool b) = Inr (if b then 1 else 0)"
| "to_int32 cv (JNum n) = Inr (wrap32 n)"
| "to_int32 cv v = cv v"

text \<open>
  \<^verbatim>\<open>e.message\<close>: reading a property of \<^verbatim>\<open>undefined\<close> or \<^verbatim>\<open>null\<close>
  throws; a primitive or an array has no such property; an object is looked up.
\<close>

definition obj_get :: "(string \<times> jsval) list \<Rightarrow> string \<Rightarrow> jsval" where
  "obj_get kv k = (case map_of kv k of None \<Rightarrow> JUndefined | Some v \<Rightarrow> v)"

fun get_message :: "jsval \<Rightarrow> exn + jsval" where
  "get_message JUndefined = Inl TypeError"
| "get_message JNull = Inl TypeError"
| "get_message (JObj kv) = Inr (obj_get kv ''message'')"
| "get_message v = Inr JUndefined"

text \<open>\<^verbatim>\<open>es.map(e => e.message)\<close> on the elements of an array, left to right.\<close>

fun map_messages :: "jsval list \<Rightarrow> exn + jsval list" where
  "map_messages [] = Inr []"
| "map_messages (e # es) =
     (case get_message e of
        Inl x \<Rightarrow> Inl x
      | Inr m \<Rightarrow> (case map_messages es of Inl x \<Rightarrow> Inl x | Inr ms \<Rightarrow> Inr (m # ms)))"

text \<open>
  \<^verbatim>\<open>err.errors.map(e => e.message)\<close>: only an array has \<^verbatim>\<open>map\<close>; on
  \<^verbatim>\<open>undefined\<close> and \<^verbatim>\<open>null\<close> the property read throws, on every other value
  the call of a missing method does.
\<close>

fun errors_map :: "jsval \<Rightarrow> exn + jsval list" where
  "errors_map (JArr es) = map_messages es"
| "errors_map v = Inl TypeError"

subsection \<open>String literals of the source\<close>

definition utf8 :: "nat \<Rightarrow> string" where
  "utf8 c =
     (if c < 0x80 then [char_of c]
      else if c < 0x800 then [char_of (0xC0 + c div 64), char_of (0x80 + c mod 64)]
      else [char_of (0xE0 + c div 4096), char_of (0x80 + (c div 64) mod 64),
            char_of (0x80 + c mod 64)])"

definition js_lit :: "nat list \<Rightarrow> string" where
  "js_lit cs = concat (map utf8 cs)"

text \<open>"The data is not valid."\<close>

definition msg_invalid_data :: string where
  "msg_invalid_data = js_lit
     [0x0E02, 0x0E49, 0x0E2D, 0x0E21, 0x0E39, 0x0E25, 0x0E44, 0x0E21, 0x0E48, 0x0E16,
      0x0E39, 0x0E01, 0x0E15, 0x0E49, 0x0E2D, 0x0E07]"

text \<open>"The data is already in the system."\<close>

definition msg_duplicate_data :: string where
  "msg_duplicate_data = js_lit
     [0x0E02, 0x0E49, 0x0E2D, 0x0E21, 0x0E39, 0x0E25, 0x0E0B, 0x0E49, 0x0E33, 0x0E43,
      0x0E19, 0x0E23, 0x0E30, 0x0E1A, 0x0E1A]"

text \<open>"Token is not valid."\<close>

definition msg_invalid_token :: string where
  "msg_invalid_token = ''Token '' @ js_lit
     [0x0E44, 0x0E21, 0x0E48, 0x0E16, 0x0E39, 0x0E01, 0x0E15, 0x0E49, 0x0E2D, 0x0E07]"

text \<open>"An error occurred inside the server."\<close>

definition msg_server_error :: string where
  "msg_server_error = js_lit
     [0x0E40, 0x0E01, 0x0E34, 0x0E14, 0x0E02, 0x0E49, 0x0E2D, 0x0E1C, 0x0E34, 0x0E14,
      0x0E1E, 0x0E25, 0x0E32, 0x0E14, 0x0E20, 0x0E32, 0x0E22, 0x0E43, 0x0E19, 0x0E40,
      0x0E0B, 0x0E34, 0x0E23, 0x0E4C, 0x0E1F, 0x0E40, 0x0E27, 0x0E2D, 0x0E23, 0x0E4C]"

text \<open>"The requested API was not found."\<close>

definition msg_not_found :: string where
  "msg_not_found = js_lit [0x0E44, 0x0E21, 0x0E48, 0x0E1E, 0x0E1A] @ '' API '' @ js_lit
     [0x0E17, 0x0E35, 0x0E48, 0x0E23, 0x0E49, 0x0E2D, 0x0E07, 0x0E02, 0x0E2D]"

text \<open>"Too many requests, please try again later", in the wording of each file.\<close>

definition msg_rate_server_js :: string where
  "msg_rate_server_js = js_lit
     [0x0E04, 0x0E33, 0x0E02, 0x0E2D, 0x0E21, 0x0E32, 0x0E01, 0x0E40, 0x0E01, 0x0E34,
      0x0E19, 0x0E44, 0x0E1B, 0x0020, 0x0E01, 0x0E23, 0x0E38, 0x0E13, 0x0E32, 0x0E25,
      0x0E2D, 0x0E07, 0x0E43, 0x0E2B, 0x0E21, 0x0E48, 0x0E43, 0x0E19, 0x0E20, 0x0E32,
      0x0E22, 0x0E2B, 0x0E25, 0x0E31, 0x0E07]"

definition msg_rate_part_000 :: string where
  "msg_rate_part_000 = js_lit
     [0x0E04, 0x0E38, 0x0E13, 0x0E2A, 0x0E48, 0x0E07, 0x0E04, 0x0E33, 0x0E02, 0x0E2D,
      0x0E21, 0x0E32, 0x0E01, 0x0E40, 0x0E01, 0x0E34, 0x0E19, 0x0E44, 0x0E1B, 0x0020,
      0x0E01, 0x0E23, 0x0E38, 0x0E13, 0x0E32, 0x0E25, 0x0E2D, 0x0E07, 0x0E43, 0x0E2B,
      0x0E21, 0x0E48, 0x0E43, 0x0E19, 0x0E20, 0x0E32, 0x0E22, 0x0E2B, 0x0E25, 0x0E31,
      0x0E07]"

definition msg_rate_part_001 :: string where
  "msg_rate_part_001 = js_lit
     [0x0E04, 0x0E38, 0x0E13, 0x0E44, 0x0E14, 0x0E49, 0x0E2A, 0x0E48, 0x0E07, 0x0E04,
      0x0E33, 0x0E02, 0x0E2D, 0x0E21, 0x0E32, 0x0E01, 0x0E40, 0x0E01, 0x0E34, 0x0E19,
      0x0E44, 0x0E1B, 0x0020, 0x0E01, 0x0E23, 0x0E38, 0x0E13, 0x0E32, 0x0E25, 0x0E2D,
      0x0E07, 0x0E43, 0x0E2B, 0x0E21, 0x0E48, 0x0E2D, 0x0E35, 0x0E01, 0x0E04, 0x0E23,
      0x0E31, 0x0E49, 0x0E07, 0x0E43, 0x0E19, 0x0E20, 0x0E32, 0x0E22, 0x0E2B, 0x0E25,
      0x0E31, 0x0E07]"

section \<open>The response object and the error handler\<close>

text \<open>
  An error object, by the four properties the handler reads (a missing one is
  \<^verbatim>\<open>JUndefined\<close>), and the JSON body of an error response. \<^verbatim>\<open>errors\<close> is
  \<^verbatim>\<open>None\<close> when the object literal has no such key.
\<close>

record jserr =
  err_name :: jsval
  err_status :: jsval
  err_message :: jsval
  err_errors :: jsval

record body =
  success :: bool
  message :: jsval
  errors :: "jsval list option"

text \<open>
  The response object: \<^verbatim>\<open>res.status(c)\<close> stores the code, and a JSON response
  that goes out is recorded with the stored code, in order (\<open>res_json\<close>). Whether a call
  of \<^verbatim>\<open>res.json(b)\<close> makes one go out depends on the code and on the response
  (\<open>send_json\<close> below).
\<close>

record res =
  statusCode :: jsval
  sent :: "(jsval \<times> body) list"

definition res_init :: res where
  "res_init = \<lparr>statusCode = JNum 200, sent = []\<rparr>"

definition res_status :: "jsval \<Rightarrow> res \<Rightarrow> res" where
  "res_status c r = r\<lparr>statusCode := c\<rparr>"

definition res_json :: "body \<Rightarrow> res \<Rightarrow> res" where
  "res_json b r = r\<lparr>sent := sent r @ [(statusCode r, b)]\<rparr>"

text \<open>
  The statuses whose body the platform drops: 1xx, 204 and 304.
\<close>

definition bodiless :: "int \<Rightarrow> bool" where
  "bodiless n = (n = 204 \<or> n = 304 \<or> (100 \<le> n \<and> n \<le> 199))"

text \<open>
  What a call of \<^verbatim>\<open>res.json\<close> comes to when no JSON response results: an exception,
  or a response with the given status and no body.
\<close>

datatype no_json = Thrown exn | NoBody int

text \<open>
  \<^verbatim>\<open>res.json(b)\<close> after \<^verbatim>\<open>res.status(c)\<close>, for any \<^verbatim>\<open>c\<close>. On a response
  that has gone out already, setting the headers throws. Otherwise the head is written
  with \<^verbatim>\<open>c | 0\<close>, which throws unless that lies between 100 and 999; the body
  follows unless the status is one without, or \<^verbatim>\<open>c\<close> is the number 205, whose body
  the framework empties (by a comparison with \<^verbatim>\<open>===\<close>, before the head is
  written). (A \<^verbatim>\<open>HEAD\<close> request, and a conditional
  \<^verbatim>\<open>GET\<close> that the framework finds fresh, get the head alone; the handlers are
  modelled for the other requests.)
\<close>

definition send_json :: "(jsval \<Rightarrow> exn + int) \<Rightarrow> body \<Rightarrow> res \<Rightarrow> no_json + res" where
  "send_json cv b r =
     (if sent r \<noteq> [] then Inl (Thrown HeadersSent)
      else
        (case to_int32 cv (statusCode r) of
           Inl x \<Rightarrow> Inl (Thrown x)
         | Inr n \<Rightarrow>
             if n < 100 \<or> 999 < n then Inl (Thrown RangeError)
             else if bodiless n \<or> statusCode r = JNum 205 then Inl (NoBody n)
             else Inr (res_json b (res_status (JNum n) r))))"

text \<open>
  The error-handling middleware, the same in the three files but for what it logs first
  (the logging is left out). \<^verbatim>\<open>Inr\<close> is the response object after one JSON
  response has gone out; \<^verbatim>\<open>Inl\<close> says what happened instead. In the first two
  branches \<^verbatim>\<open>res.status(400)\<close> is called before the argument of \<^verbatim>\<open>json\<close>
  is evaluated; when that throws, nothing has been sent, and the exception is all that is
  kept.
\<close>

definition error_handler :: "(jsval \<Rightarrow> exn + int) \<Rightarrow> jserr \<Rightarrow> res \<Rightarrow> no_json + res" where
  "error_handler cv err r =
     (if err_name err = JStr ''SequelizeValidationError'' then
        (case errors_map (err_errors err) of
           Inl x \<Rightarrow> Inl (Thrown x)
         | Inr ms \<Rightarrow>
             send_json cv \<lparr>success = False, message = JStr msg_invalid_data,
                           errors = Some ms\<rparr> (res_status (JNum 400) r))
      else if err_name err = JStr ''SequelizeUniqueConstraintError'' then
        (case errors_map (err_errors err) of
           Inl x \<Rightarrow> Inl (Thrown x)
         | Inr ms \<Rightarrow>
             send_json cv \<lparr>success = False, message = JStr msg_duplicate_data,
                           errors = Some ms\<rparr> (res_status (JNum 400) r))
      else if err_name err = JStr ''JsonWebTokenError'' then
        send_json cv \<lparr>success = False, message = JStr msg_invalid_token,
                      errors = None\<rparr> (res_status (JNum 401) r)
      else
        send_json cv \<lparr>success = False,
                      message = js_or (err_message err) (JStr msg_server_error),
                      errors = None\<rparr>
          (res_status (js_or (err_status err) (JNum 500)) r))"

section \<open>Requests, the environment and the three entry files\<close>

text \<open>
  The three entry files: \<^verbatim>\<open>volunteer-api/server.js\<close> and the two unnamed copies of
  it (\<^verbatim>\<open>part_000\<close>, \<^verbatim>\<open>part_001\<close>), which differ in their options.
\<close>

datatype variant = Server_js | Part_000 | Part_001

text \<open>
  A request as the application reads it: \<^verbatim>\<open>req.headers\<close> (names in lower case),
  \<^verbatim>\<open>req.originalUrl\<close>, \<^verbatim>\<open>req.ip\<close>. The payload stands for the rest.
\<close>

record request =
  req_method :: string
  originalUrl :: string
  headers :: "(string \<times> string) list"
  ip :: string
  payload :: string

definition header :: "request \<Rightarrow> string \<Rightarrow> string option" where
  "header req k = map_of (headers req) k"

text \<open>The path that a mount is matched against: the URL up to the query string.\<close>

definition req_path :: "request \<Rightarrow> string" where
  "req_path req = takeWhile (\<lambda>c. c \<noteq> CHR ''?'') (originalUrl req)"

text \<open>\<^verbatim>\<open>process.env\<close>, and \<^verbatim>\<open>process.env.X || d\<close>: an unset or empty variable gives
  the default.\<close>

type_synonym env = "string \<rightharpoonup> string"

definition env_or :: "string option \<Rightarrow> string \<Rightarrow> string" where
  "env_or v d = (case v of None \<Rightarrow> d | Some s \<Rightarrow> if s = [] then d else s)"

definition COOKIE_SECRET :: "env \<Rightarrow> string" where
  "COOKIE_SECRET e = env_or (e ''COOKIE_SECRET'') ''your-secret-key-123''"

subsection \<open>Start-up\<close>

text \<open>
  Only \<^verbatim>\<open>part_001\<close> checks its environment while the module loads, and exits with
  code 1 when one of five variables is unset or empty. \<^verbatim>\<open>startServer\<close> exits with
  code 1 when the database cannot be reached or synchronised (a collaborator:
  \<open>db_ok\<close>), and listens otherwise.
\<close>

definition required_env :: "variant \<Rightarrow> string list" where
  "required_env v =
     (case v of
        Part_001 \<Rightarrow> [''DB_HOST'', ''DB_USER'', ''DB_PASSWORD'', ''DB_NAME'', ''PORT'']
      | _ \<Rightarrow> [])"

datatype started = Exit nat | Listening

definition env_missing :: "variant \<Rightarrow> env \<Rightarrow> bool" where
  "env_missing v e = (\<exists>k \<in> set (required_env v). e k = None \<or> e k = Some [])"

definition startServer :: "bool \<Rightarrow> started" where
  "startServer db_ok = (if db_ok then Listening else Exit 1)"

definition boot :: "variant \<Rightarrow> env \<Rightarrow> bool \<Rightarrow> started" where
  "boot v e db_ok = (if env_missing v e then Exit 1 else startServer db_ok)"

subsection \<open>Rate limiter options\<close>

record limiter_opts =
  windowMs :: nat
  max_opt :: nat
  skipFailedRequests :: bool
  message_opt :: body

definition limiter_options :: "variant \<Rightarrow> limiter_opts" where
  "limiter_options v =
     (case v of
        Server_js \<Rightarrow>
          \<lparr>windowMs = 100 * 60 * 1000, max_opt = 1200, skipFailedRequests = False,
           message_opt = \<lparr>success = False, message = JStr msg_rate_server_js,
                          errors = None\<rparr>\<rparr>
      | Part_000 \<Rightarrow>
          \<lparr>windowMs = 15 * 60 * 1000, max_opt = 1000, skipFailedRequests = True,
           message_opt = \<lparr>success = False, message = JStr msg_rate_part_000,
                          errors = None\<rparr>\<rparr>
      | Part_001 \<Rightarrow>
          \<lparr>windowMs = 15 * 60 * 1000, max_opt = 200, skipFailedRequests = False,
           message_opt = \<lparr>success = False, message = JStr msg_rate_part_001,
                          errors = None\<rparr>\<rparr>)"

subsection \<open>Origin policy\<close>

text \<open>\<^verbatim>\<open>s.split(',')\<close>: the pieces between the commas, empty ones included.\<close>

fun split_acc :: "char \<Rightarrow> string \<Rightarrow> string \<Rightarrow> string list" where
  "split_acc c acc [] = [rev acc]"
| "split_acc c acc (x # xs) =
     (if x = c then rev acc # split_acc c [] xs else split_acc c (x # acc) xs)"

definition split :: "string \<Rightarrow> char \<Rightarrow> string list" where
  "split s c = split_acc c [] s"

definition default_origins :: "string list" where
  "default_origins = [''http://localhost:5173'', ''https://project-100-front.onrender.com'']"

text \<open>
  \<^verbatim>\<open>server.js\<close> and \<^verbatim>\<open>part_000\<close> fix the list; \<^verbatim>\<open>part_001\<close> reads it from
  \<^verbatim>\<open>ALLOWED_ORIGINS\<close> when that is set and not empty.
\<close>

definition allowedOrigins :: "variant \<Rightarrow> env \<Rightarrow> string list" where
  "allowedOrigins v e =
     (case v of
        Part_001 \<Rightarrow>
          (case e ''ALLOWED_ORIGINS'' of
             None \<Rightarrow> default_origins
           | Some s \<Rightarrow> if s = [] then default_origins else split s CHR '','')
      | _ \<Rightarrow> default_origins)"

text \<open>\<^verbatim>\<open>new Error(msg)\<close>: the name is inherited, no status, no errors.\<close>

definition new_Error :: "string \<Rightarrow> jserr" where
  "new_Error msg =
     \<lparr>err_name = JStr ''Error'', err_status = JUndefined, err_message = JStr msg,
      err_errors = JUndefined\<rparr>"

datatype cb_result = Allowed | Denied jserr

text \<open>
  The \<^verbatim>\<open>origin\<close> callback given to \<^verbatim>\<open>cors\<close>: \<^verbatim>\<open>callback(null, true)\<close> when
  \<^verbatim>\<open>!origin\<close> (no header, or an empty one) or when the list includes the origin,
  \<^verbatim>\<open>callback(new Error(...))\<close> otherwise.
\<close>

definition origin_callback :: "string list \<Rightarrow> string option \<Rightarrow> cb_result" where
  "origin_callback allowed origin =
     (case origin of
        None \<Rightarrow> Allowed
      | Some s \<Rightarrow>
          if s = [] \<or> s \<in> set allowed then Allowed
          else Denied (new_Error ''CORS Policy Blocks This Request''))"

record cors_opts =
  methods :: "string list"
  allowedHeaders :: "string list"
  exposedHeaders :: "string list"
  credentials :: bool

definition cors_options :: cors_opts where
  "cors_options =
     \<lparr>methods = [''GET'', ''POST'', ''PUT'', ''PATCH'', ''DELETE''],
      allowedHeaders = [''Content-Type'', ''Authorization''],
      exposedHeaders = [''Authorization''],
      credentials = True\<rparr>"

subsection \<open>Body size limit\<close>

definition body_limit :: "variant \<Rightarrow> string" where
  "body_limit v = (case v of Part_000 \<Rightarrow> ''1mb'' | _ \<Rightarrow> ''100kb'')"

subsection \<open>The 404 handler\<close>

text \<open>
  The last \<^verbatim>\<open>app.use\<close> of each file; \<^verbatim>\<open>part_001\<close> appends the requested URL
  to the message. Its status is the constant 404, valid and with a body, so on a
  response that has not gone out (the one it is given in the walk) its JSON response
  goes out.
\<close>

definition not_found_message :: "variant \<Rightarrow> request \<Rightarrow> string" where
  "not_found_message v req =
     (case v of
        Part_001 \<Rightarrow> msg_not_found @ '': '' @ originalUrl req
      | _ \<Rightarrow> msg_not_found)"

definition not_found_handler :: "variant \<Rightarrow> request \<Rightarrow> res \<Rightarrow> res" where
  "not_found_handler v req r =
     res_json \<lparr>success = False, message = JStr (not_found_message v req), errors = None\<rparr>
       (res_status (JNum 404) r)"

section \<open>The middleware stack\<close>

subsection \<open>What a middleware does with a request\<close>

datatype reply = Json jsval body | NoContent int | Redirect string | Extern string

datatype action = Next | NextErr jserr | Reply reply | Stall

text \<open>
  A handler that has called \<^verbatim>\<open>res.json\<close> has answered with its first emission; one
  that returns with nothing sent and without \<^verbatim>\<open>next()\<close> leaves the request open.
\<close>

definition answered :: "res \<Rightarrow> action" where
  "answered r = (case sent r of [] \<Rightarrow> Stall | (c, b) # _ \<Rightarrow> Reply (Json c b))"

subsection \<open>The rate limiter\<close>

text \<open>
  The counters: per client key, the number of requests in the current window and the
  time (in milliseconds) at which that window ends.
\<close>

record counter =
  hits :: nat
  resetTime :: nat

type_synonym table = "string \<rightharpoonup> counter"

definition hits_of :: "table \<Rightarrow> string \<Rightarrow> nat" where
  "hits_of t k = (case t k of None \<Rightarrow> 0 | Some c \<Rightarrow> hits c)"

text \<open>
  Modelled from the spec: the counter store of the \<^verbatim>\<open>express-rate-limit\<close> package,
  which the entry files call as \<^verbatim>\<open>rateLimit({...})\<close> and which is not part of the
  sources. "On each request: if no counter exists or the window has elapsed, create/reset
  it to 1; otherwise increment."
\<close>

definition increment :: "limiter_opts \<Rightarrow> nat \<Rightarrow> string \<Rightarrow> table \<Rightarrow> table" where
  "increment opts now k t =
     (case t k of
        None \<Rightarrow> t(k \<mapsto> \<lparr>hits = 1, resetTime = now + windowMs opts\<rparr>)
      | Some c \<Rightarrow>
          if resetTime c \<le> now then t(k \<mapsto> \<lparr>hits = 1, resetTime = now + windowMs opts\<rparr>)
          else t(k \<mapsto> c\<lparr>hits := hits c + 1\<rparr>))"

text \<open>
  Modelled from the spec: the middleware that \<^verbatim>\<open>rateLimit({...})\<close> returns. "If the
  incremented count exceeds a configured maximum, reject with a 429-equivalent response
  containing a structured message, and do not forward to Router Dispatch." The message
  is the \<^verbatim>\<open>message\<close> option of the entry file.
\<close>

definition limiter :: "limiter_opts \<Rightarrow> nat \<Rightarrow> string \<Rightarrow> table \<Rightarrow> action \<times> table" where
  "limiter opts now k t =
     (let t' = increment opts now k t
      in (if max_opt opts < hits_of t' k then Reply (Json (JNum 429) (message_opt opts))
          else Next, t'))"

text \<open>The requests of one client, at the given times, one after the other.\<close>

fun limiter_run :: "limiter_opts \<Rightarrow> string \<Rightarrow> nat list \<Rightarrow> table \<Rightarrow> action list \<times> table" where
  "limiter_run opts k [] t = ([], t)"
| "limiter_run opts k (now # ns) t =
     (case limiter opts now k t of
        (a, t') \<Rightarrow> (case limiter_run opts k ns t' of (as, t'') \<Rightarrow> (a # as, t'')))"

subsection \<open>Collaborators\<close>

text \<open>
  The packages and route modules that the entry files only mount: each is any function
  from the request to what it does with it. \<open>mount_match m p\<close> is the framework's
  decision that the path \<open>p\<close> lies under the mount path \<open>m\<close>; \<open>int32_of\<close> is the
  language's conversion of a string, an array or an object in \<^verbatim>\<open>v | 0\<close>;
  \<open>cors_continue\<close> is what
  the \<^verbatim>\<open>cors\<close> package does once the origin is allowed; \<open>skip_failed\<close> is the
  adjustment that \<^verbatim>\<open>skipFailedRequests\<close> makes to a client's counter once the reply
  to a limited request is known.
\<close>

record ext =
  mount_match :: "string \<Rightarrow> string \<Rightarrow> bool"
  int32_of :: "jsval \<Rightarrow> exn + int"
  cookieParser :: "string option \<Rightarrow> request \<Rightarrow> action"
  helmet :: "request \<Rightarrow> action"
  xss :: "request \<Rightarrow> action"
  hpp :: "request \<Rightarrow> action"
  cors_continue :: "request \<Rightarrow> action"
  json_parser :: "string \<Rightarrow> request \<Rightarrow> action"
  urlencoded_parser :: "string \<Rightarrow> request \<Rightarrow> action"
  static :: "string \<Rightarrow> request \<Rightarrow> action"
  router :: "string \<Rightarrow> request \<Rightarrow> action"
  skip_failed :: "reply option \<Rightarrow> string \<Rightarrow> table \<Rightarrow> table"

record deploy =
  variant :: variant
  environ :: env
  collab :: ext

subsection \<open>The layers, in the order of the \<^verbatim>\<open>app.use\<close> calls\<close>

datatype layer_id =
    CookieParserSecret
  | Helmet
  | Xss
  | Hpp
  | CookieParser
  | ForceHttps
  | Limiter
  | Cors
  | JsonBody
  | UrlencodedBody
  | Static string
  | Router string
  | ErrorHandler
  | NotFound

type_synonym layer = "string \<times> layer_id"

text \<open>
  Only \<^verbatim>\<open>part_000\<close> redirects to HTTPS, between the second cookie parser and the
  limiter.
\<close>

definition front :: "variant \<Rightarrow> layer list" where
  "front v =
     [(''/'', CookieParserSecret), (''/'', Helmet), (''/'', Xss), (''/'', Hpp),
      (''/'', CookieParser)]
     @ (case v of Part_000 \<Rightarrow> [(''/'', ForceHttps)] | _ \<Rightarrow> [])"

definition parsers :: "layer list" where
  "parsers = [(''/'', JsonBody), (''/'', UrlencodedBody)]"

definition statics :: "layer list" where
  "statics = [(''/uploads'', Static ''uploads''), (''/uploadsfile'', Static ''uploadsfile'')]"

definition routes :: "layer list" where
  "routes =
     [(''/api/auth'', Router ''auth''),
      (''/api/user'', Router ''user''),
      (''/api/faculty'', Router ''faculty''),
      (''/api/'', Router ''file''),
      (''/api/category'', Router ''category''),
      (''/api'', Router ''activity''),
      (''/api/profile'', Router ''profile''),
      (''/api/'', Router ''planactivity''),
      (''/api/notifications'', Router ''notification''),
      (''/api/'', Router ''contact'')]"

definition stack :: "variant \<Rightarrow> layer list" where
  "stack v =
     front v @ [(''/api/'', Limiter)] @ [(''/'', Cors)] @ parsers @ statics @ routes
     @ [(''/'', ErrorHandler)] @ [(''/'', NotFound)]"

subsection \<open>Running one layer\<close>

text \<open>
  What is carried along one request: the limiter's table, and the response headers that
  the origin policy has written.
\<close>

record pstate =
  counters :: table
  res_headers :: "(string \<times> string) list"

text \<open>
  Modelled from the spec: the headers that the \<^verbatim>\<open>cors\<close> package writes for an allowed
  request, from the options of the entry file: "allowed requests receive response headers
  granting credentialed cross-origin access and exposing a designated response header".
\<close>

definition grant_headers :: "cors_opts \<Rightarrow> (string \<times> string) list" where
  "grant_headers opts =
     (if credentials opts then [(''Access-Control-Allow-Credentials'', ''true'')] else [])
     @ map (\<lambda>h. (''Access-Control-Expose-Headers'', h)) (exposedHeaders opts)"

text \<open>
  Modelled from the spec: what the \<^verbatim>\<open>cors\<close> package (not part of the sources) does
  with the verdict of the callback that the entry file gives it. "Denial surfaces as an
  error object consumed by the Error Normalizer, not as a direct HTTP response": the
  error goes to \<^verbatim>\<open>next\<close>. On an allowed origin the headers are written and the
  package carries on (\<open>cors_continue\<close>).
\<close>

definition cors_layer :: "deploy \<Rightarrow> request \<Rightarrow> pstate \<Rightarrow> action \<times> pstate" where
  "cors_layer d req st =
     (case origin_callback (allowedOrigins (variant d) (environ d)) (header req ''origin'') of
        Denied e \<Rightarrow> (NextErr e, st)
      | Allowed \<Rightarrow>
          (cors_continue (collab d) req,
           st\<lparr>res_headers := res_headers st @ grant_headers cors_options\<rparr>))"

text \<open>
  The redirect of \<^verbatim>\<open>part_000\<close>, to \<^verbatim>\<open>`https://${req.headers.host}${req.url}`\<close>
  when the forwarded protocol is not \<^verbatim>\<open>https\<close> and \<^verbatim>\<open>NODE_ENV\<close> is
  \<^verbatim>\<open>production\<close>; a missing host prints as \<^verbatim>\<open>undefined\<close>.
\<close>

definition force_https :: "env \<Rightarrow> request \<Rightarrow> action" where
  "force_https e req =
     (if header req ''x-forwarded-proto'' \<noteq> Some ''https'' \<and> e ''NODE_ENV'' = Some ''production''
      then Reply (Redirect (''https://''
             @ (case header req ''host'' of None \<Rightarrow> ''undefined'' | Some h \<Rightarrow> h)
             @ originalUrl req))
      else Next)"

fun run_layer :: "deploy \<Rightarrow> nat \<Rightarrow> layer_id \<Rightarrow> request \<Rightarrow> pstate \<Rightarrow> action \<times> pstate" where
  "run_layer d now CookieParserSecret req st =
     (cookieParser (collab d) (Some (COOKIE_SECRET (environ d))) req, st)"
| "run_layer d now Helmet req st = (helmet (collab d) req, st)"
| "run_layer d now Xss req st = (xss (collab d) req, st)"
| "run_layer d now Hpp req st = (hpp (collab d) req, st)"
| "run_layer d now CookieParser req st = (cookieParser (collab d) None req, st)"
| "run_layer d now ForceHttps req st = (force_https (environ d) req, st)"
| "run_layer d now Limiter req st =
     (case limiter (limiter_options (variant d)) now (ip req) (counters st) of
        (a, t') \<Rightarrow> (a, st\<lparr>counters := t'\<rparr>))"
| "run_layer d now Cors req st = cors_layer d req st"
| "run_layer d now JsonBody req st = (json_parser (collab d) (body_limit (variant d)) req, st)"
| "run_layer d now UrlencodedBody req st =
     (urlencoded_parser (collab d) (body_limit (variant d)) req, st)"
| "run_layer d now (Static dir) req st = (static (collab d) dir req, st)"
| "run_layer d now (Router name) req st = (router (collab d) name req, st)"
| "run_layer d now ErrorHandler req st = (Next, st)"
| "run_layer d now NotFound req st = (answered (not_found_handler (variant d) req res_init), st)"

subsection \<open>Dispatch\<close>

text \<open>
  Modelled from the spec: the walk of the framework (Express, not part of the sources)
  over the layers that the entry file has mounted. "Within one request, stages execute
  strictly in the declared mount order"; "any stage may short-circuit with an error,
  which flows to Error Normalizer; unmatched routes fall to Not-Found Responder". A layer
  mounted on \<^verbatim>\<open>/\<close> sees every request, another one those whose path its mount
  matches. While no error is pending, the handlers with three arguments run and the
  error handler is passed over; once a handler has called \<^verbatim>\<open>next(err)\<close> (or
  thrown), only the error handler runs. The walk ends with the first reply; when the
  layers are used up, the framework answers by itself. No layer follows the error handler
  that could take an exception it throws.
\<close>

datatype outcome = Sent reply | Exhausted "jserr option" | Uncaught exn | Stalled

definition applies :: "deploy \<Rightarrow> string \<Rightarrow> request \<Rightarrow> bool" where
  "applies d m req = (m = ''/'' \<or> mount_match (collab d) m (req_path req))"

fun dispatch ::
  "deploy \<Rightarrow> nat \<Rightarrow> layer list \<Rightarrow> request \<Rightarrow> jserr option \<Rightarrow> pstate \<Rightarrow> layer_id list
   \<Rightarrow> outcome \<times> pstate \<times> layer_id list" where
  "dispatch d now [] req pend st tr = (Exhausted pend, st, tr)"
| "dispatch d now ((m, lid) # ls) req pend st tr =
     (if \<not> applies d m req then dispatch d now ls req pend st tr
      else
        (case pend of
           None \<Rightarrow>
             if lid = ErrorHandler then dispatch d now ls req None st tr
             else
               (case run_layer d now lid req st of
                  (Next, st') \<Rightarrow> dispatch d now ls req None st' (tr @ [lid])
                | (NextErr e, st') \<Rightarrow> dispatch d now ls req (Some e) st' (tr @ [lid])
                | (Reply r, st') \<Rightarrow> (Sent r, st', tr @ [lid])
                | (Stall, st') \<Rightarrow> (Stalled, st', tr @ [lid]))
         | Some e \<Rightarrow>
             if lid = ErrorHandler then
               (case error_handler (int32_of (collab d)) e res_init of
                  Inl (Thrown x) \<Rightarrow> (Uncaught x, st, tr @ [lid])
                | Inl (NoBody n) \<Rightarrow> (Sent (NoContent n), st, tr @ [lid])
                | Inr r \<Rightarrow>
                    (case answered r of
                       Reply a \<Rightarrow> (Sent a, st, tr @ [lid])
                     | _ \<Rightarrow> (Stalled, st, tr @ [lid])))
             else dispatch d now ls req (Some e) st tr))"

text \<open>
  One request against the application: the outcome, the response headers, the table
  afterwards, and the layers that ran. With \<^verbatim>\<open>skipFailedRequests\<close>, a request that
  the limiter has counted is looked at again when its reply is known.
\<close>

definition reply_of :: "outcome \<Rightarrow> reply option" where
  "reply_of out = (case out of Sent r \<Rightarrow> Some r | _ \<Rightarrow> None)"

definition handle_request ::
  "deploy \<Rightarrow> nat \<Rightarrow> request \<Rightarrow> table
   \<Rightarrow> outcome \<times> (string \<times> string) list \<times> table \<times> layer_id list" where
  "handle_request d now req t =
     (case dispatch d now (stack (variant d)) req None \<lparr>counters = t, res_headers = []\<rparr> [] of
        (out, st, tr) \<Rightarrow>
          (out, res_headers st,
           (if skipFailedRequests (limiter_options (variant d)) \<and> Limiter \<in> set tr
            then skip_failed (collab d) (reply_of out) (ip req) (counters st)
            else counters st),
           tr))"

section \<open>Shapes of error objects, and a deployment for the examples\<close>

text \<open>
  The values on which \<^verbatim>\<open>e.message\<close> can be read, and the values of
  \<^verbatim>\<open>err.errors\<close> on which \<^verbatim>\<open>.map(e => e.message)\<close> runs through: an array
  without \<^verbatim>\<open>undefined\<close> or \<^verbatim>\<open>null\<close> among its elements.
\<close>

fun has_props :: "jsval \<Rightarrow> bool" where
  "has_props JUndefined = False"
| "has_props JNull = False"
| "has_props v = True"

fun mappable :: "jsval \<Rightarrow> bool" where
  "mappable (JArr es) = list_all has_props es"
| "mappable v = False"

text \<open>\<^verbatim>\<open>e.message\<close> for a value on which it can be read.\<close>

definition message_of :: "jsval \<Rightarrow> jsval" where
  "message_of v = (case v of JObj kv \<Rightarrow> obj_get kv ''message'' | _ \<Rightarrow> JUndefined)"

definition well_formed :: "jserr \<Rightarrow> bool" where
  "well_formed e =
     (if err_name e = JStr ''SequelizeValidationError''
         \<or> err_name e = JStr ''SequelizeUniqueConstraintError''
      then mappable (err_errors e) else True)"

text \<open>
  The path matching of the framework's router (Express, not part of the sources) for a
  mount made with \<^verbatim>\<open>app.use(m, ...)\<close>: letters are compared without regard to case,
  a slash at the end of the mount path is optional, and the path must continue with a
  slash or end where the mount path ends. So \<^verbatim>\<open>/api\<close>, \<^verbatim>\<open>/api/\<close>,
  \<^verbatim>\<open>/API/user\<close> lie under the mount \<^verbatim>\<open>/api/\<close>, and \<^verbatim>\<open>/apix\<close> does not.
\<close>

definition lower :: "char \<Rightarrow> char" where
  "lower c =
     (case map_of (zip ''ABCDEFGHIJKLMNOPQRSTUVWXYZ'' ''abcdefghijklmnopqrstuvwxyz'') c of
        None \<Rightarrow> c
      | Some l \<Rightarrow> l)"

definition mount_stem :: "string \<Rightarrow> string" where
  "mount_stem m =
     (if m \<noteq> [] \<and> last m = CHR ''/'' then map lower (butlast m) else map lower m)"

definition under_mount :: "string \<Rightarrow> string \<Rightarrow> bool" where
  "under_mount m p =
     (map lower p = mount_stem m
      \<or> take (Suc (length (mount_stem m))) (map lower p) = mount_stem m @ ''/'')"

text \<open>
  The request targets for which the path that the framework matches is \<open>req_path\<close>:
  those in origin form, in ASCII, without a fragment and without white space. (The
  framework reads the path of any other target through the platform's URL parser.)
\<close>

definition origin_form :: "string \<Rightarrow> bool" where
  "origin_form u =
     (take 1 u = ''/''
      \<and> list_all (\<lambda>c. \<not> digit7 c
                     \<and> c \<notin> set [CHR ''#'', CHR '' '', CHR 0x09, CHR 0x0A, CHR 0x0C, CHR 0x0D]) u)"

text \<open>
  The errors whose status the handler can answer with a JSON body: those of the three
  names (400 and 401), those without a truthy status (500), and those whose status,
  taken as \<^verbatim>\<open>status | 0\<close>, lies between 100 and 999 and is not one without body
  (nor the status the number 205).
\<close>

definition named :: "jserr \<Rightarrow> bool" where
  "named e =
     (err_name e = JStr ''SequelizeValidationError''
      \<or> err_name e = JStr ''SequelizeUniqueConstraintError''
      \<or> err_name e = JStr ''JsonWebTokenError'')"

definition status_fine :: "(jsval \<Rightarrow> exn + int) \<Rightarrow> jserr \<Rightarrow> bool" where
  "status_fine cv e =
     (if named e \<or> \<not> truthy (err_status e) then True
      else
        (case to_int32 cv (err_status e) of
           Inl x \<Rightarrow> False
         | Inr n \<Rightarrow>
             100 \<le> n \<and> n \<le> 999 \<and> \<not> bodiless n \<and> err_status e \<noteq> JNum 205))"

text \<open>
  A deployment in which every collaborator hands the request on, with the framework's
  path matching. The statuses of the examples are numbers or \<^verbatim>\<open>undefined\<close>; the
  conversion of the other values is the one of a string that is no numeric literal.
\<close>

definition pass_on :: ext where
  "pass_on =
     \<lparr>mount_match = under_mount,
      int32_of = (\<lambda>v. Inr 0),
      cookieParser = (\<lambda>secret req. Next),
      helmet = (\<lambda>req. Next),
      xss = (\<lambda>req. Next),
      hpp = (\<lambda>req. Next),
      cors_continue = (\<lambda>req. Next),
      json_parser = (\<lambda>limit req. Next),
      urlencoded_parser = (\<lambda>limit req. Next),
      static = (\<lambda>dir req. Next),
      router = (\<lambda>name req. Next),
      skip_failed = (\<lambda>rp k t. t)\<rparr>"

definition example_deploy :: "variant \<Rightarrow> deploy" where
  "example_deploy v = \<lparr>variant = v, environ = Map.empty, collab = pass_on\<rparr>"

definition get_request :: "string \<Rightarrow> (string \<times> string) list \<Rightarrow> request" where
  "get_request url hs =
     \<lparr>req_method = ''GET'', originalUrl = url, headers = hs, ip = ''203.0.113.7'',
      payload = []\<rparr>"

section \<open>Notions used in the statements\<close>

text \<open>
  What the limiter answers to the request number \<open>j\<close> (counted from 0) of a window:
  it hands on the first \<^verbatim>\<open>max\<close> of them and rejects the others.
\<close>

definition verdict :: "limiter_opts \<Rightarrow> nat \<Rightarrow> action" where
  "verdict opts j =
     (if j < max_opt opts then Next else Reply (Json (JNum 429) (message_opt opts)))"

text \<open>The table after a request, and the layers that ran for it.\<close>

definition counters_after :: "deploy \<Rightarrow> nat \<Rightarrow> request \<Rightarrow> table \<Rightarrow> table" where
  "counters_after d now req t = fst (snd (snd (handle_request d now req t)))"

definition layers_run :: "deploy \<Rightarrow> nat \<Rightarrow> request \<Rightarrow> table \<Rightarrow> layer_id list" where
  "layers_run d now req t = snd (snd (snd (handle_request d now req t)))"

text \<open>
  A request that every collaborator mounted on all paths hands on, and a request that no
  static or route mount matches.
\<close>

definition passes_through :: "deploy \<Rightarrow> request \<Rightarrow> bool" where
  "passes_through d req =
     (cookieParser (collab d) (Some (COOKIE_SECRET (environ d))) req = Next
      \<and> helmet (collab d) req = Next
      \<and> xss (collab d) req = Next
      \<and> hpp (collab d) req = Next
      \<and> cookieParser (collab d) None req = Next
      \<and> (variant d = Part_000 \<longrightarrow> force_https (environ d) req = Next)
      \<and> cors_continue (collab d) req = Next
      \<and> json_parser (collab d) (body_limit (variant d)) req = Next
      \<and> urlencoded_parser (collab d) (body_limit (variant d)) req = Next)"

definition unrouted :: "deploy \<Rightarrow> request \<Rightarrow> bool" where
  "unrouted d req = list_all (\<lambda>l. \<not> applies d (fst l) req) (statics @ routes)"

section \<open>The error handler\<close>

subsection \<open>Mapping the field-level messages\<close>

lemma get_message_Inl: "get_message e = Inl x \<Longrightarrow> x = TypeError"
  by (cases e) auto

lemma get_message_props: "has_props e \<Longrightarrow> get_message e = Inr (message_of e)"
  by (cases e) (auto simp: message_of_def)

lemma map_messages_total:
  "list_all has_props es \<Longrightarrow> map_messages es = Inr (map message_of es)"
  by (induction es) (auto simp: get_message_props)

lemma map_messages_throws:
  "\<not> list_all has_props es \<Longrightarrow> map_messages es = Inl TypeError"
proof (induction es)
  case Nil
  then show ?case by simp
next
  case (Cons e es)
  show ?case
  proof (cases "has_props e")
    case True
    with Cons have "map_messages es = Inl TypeError" by simp
    then show ?thesis by (auto split: sum.splits dest: get_message_Inl)
  next
    case False
    then have "get_message e = Inl TypeError" by (cases e) auto
    then show ?thesis by simp
  qed
qed

lemma errors_map_ok: "mappable v \<Longrightarrow> \<exists>ms. errors_map v = Inr ms"
  by (cases v) (auto dest: map_messages_total)

lemma errors_map_throws: "\<not> mappable v \<Longrightarrow> errors_map v = Inl TypeError"
  by (cases v) (auto dest: map_messages_throws)

subsection \<open>Sending with a constant status\<close>

lemma wrap32_small: "- 2147483648 \<le> n \<Longrightarrow> n < 2147483648 \<Longrightarrow> wrap32 n = n"
  by (simp add: wrap32_def)

lemma send_json_valid:
  "sent r = [] \<Longrightarrow> to_int32 cv c = Inr n \<Longrightarrow> 100 \<le> n \<Longrightarrow> n \<le> 999 \<Longrightarrow> \<not> bodiless n
   \<Longrightarrow> c \<noteq> JNum 205
   \<Longrightarrow> send_json cv b (res_status c r) = Inr (r\<lparr>statusCode := JNum n, sent := [(JNum n, b)]\<rparr>)"
  by (simp add: send_json_def res_status_def res_json_def)

lemma send_json_const:
  "sent r = [] \<Longrightarrow> 200 \<le> n \<Longrightarrow> n \<le> 999 \<Longrightarrow> n \<noteq> 204 \<Longrightarrow> n \<noteq> 205 \<Longrightarrow> n \<noteq> 304
   \<Longrightarrow> send_json cv b (res_status (JNum n) r)
       = Inr (r\<lparr>statusCode := JNum n, sent := [(JNum n, b)]\<rparr>)"
  by (rule send_json_valid) (simp_all add: wrap32_small bodiless_def)

lemma send_json_started:
  "sent r \<noteq> [] \<Longrightarrow> send_json cv b (res_status c r) = Inl (Thrown HeadersSent)"
  by (simp add: send_json_def res_status_def)

lemma send_json_range:
  "sent r = [] \<Longrightarrow> to_int32 cv c = Inr n \<Longrightarrow> n < 100 \<or> 999 < n
   \<Longrightarrow> send_json cv b (res_status c r) = Inl (Thrown RangeError)"
  by (auto simp: send_json_def res_status_def)

lemma send_json_bodiless:
  "sent r = [] \<Longrightarrow> to_int32 cv c = Inr n \<Longrightarrow> 100 \<le> n \<Longrightarrow> n \<le> 999 \<Longrightarrow> bodiless n
   \<Longrightarrow> send_json cv b (res_status c r) = Inl (NoBody n)"
  by (simp add: send_json_def res_status_def)

subsection \<open>Classification by name\<close>

text \<open>
  Errors on which the handler does not do what the claim, read for every error, promises.
  A declared status of 0 is falsy, so \<^verbatim>\<open>err.status || 500\<close> answers 500. A declared
  status of 1000 is handed to \<^verbatim>\<open>res.status\<close> and makes \<^verbatim>\<open>res.json\<close> throw a
  \<^verbatim>\<open>RangeError\<close>; nothing is sent. A declared status of 204 goes out without the
  message. A validation-named error without an \<^verbatim>\<open>errors\<close> array makes the handler
  throw before anything is sent. And on a response that has gone out already the handler
  throws whatever the error is.
\<close>

theorem error_handler_classification_counterexample:
  "error_handler (int32_of pass_on)
      \<lparr>err_name = JStr ''Error'', err_status = JNum 0,
       err_message = JStr ''upstream unreachable'', err_errors = JUndefined\<rparr> res_init
     = Inr \<lparr>statusCode = JNum 500,
            sent = [(JNum 500, \<lparr>success = False, message = JStr ''upstream unreachable'',
                                errors = None\<rparr>)]\<rparr>
   \<and> error_handler (int32_of pass_on)
      \<lparr>err_name = JStr ''Error'', err_status = JNum 1000,
       err_message = JStr ''out of range'', err_errors = JUndefined\<rparr> res_init
     = Inl (Thrown RangeError)
   \<and> error_handler (int32_of pass_on)
      \<lparr>err_name = JStr ''Error'', err_status = JNum 204,
       err_message = JStr ''no content'', err_errors = JUndefined\<rparr> res_init
     = Inl (NoBody 204)
   \<and> error_handler (int32_of pass_on)
      \<lparr>err_name = JStr ''SequelizeValidationError'', err_status = JUndefined,
       err_message = JStr ''Validation error'', err_errors = JUndefined\<rparr> res_init
     = Inl (Thrown TypeError)
   \<and> error_handler (int32_of pass_on)
      \<lparr>err_name = JStr ''JsonWebTokenError'', err_status = JNum 403,
       err_message = JStr ''jwt malformed'', err_errors = JUndefined\<rparr> 
      \<lparr>statusCode = JNum 200,
       sent = [(JNum 200, \<lparr>success = True, message = JStr ''ok'', errors = None\<rparr>)]\<rparr>
     = Inl (Thrown HeadersSent)"
  by (simp add: error_handler_def send_json_def res_json_def res_status_def js_or_def
      res_init_def wrap32_def bodiless_def)

text \<open>
  Claim C1, as the code has it, on a response that has not gone out. The name decides,
  whatever status the error declares. A \<^verbatim>\<open>SequelizeValidationError\<close> whose
  \<^verbatim>\<open>errors\<close> is an array without \<^verbatim>\<open>undefined\<close> or \<^verbatim>\<open>null\<close> elements gives
  400 with the "invalid data" message and the \<^verbatim>\<open>message\<close> of each element as
  \<^verbatim>\<open>errors\<close>; a \<^verbatim>\<open>SequelizeUniqueConstraintError\<close> of that shape gives 400 with
  the "duplicate data" message and the same list; a \<^verbatim>\<open>JsonWebTokenError\<close> gives 401
  with the "invalid token" message and no \<^verbatim>\<open>errors\<close> key. Every other error gives,
  with its message when that is truthy and the generic server-error message otherwise and
  with no \<^verbatim>\<open>errors\<close> key: 500 when its status is falsy; its status, taken as
  \<^verbatim>\<open>status | 0\<close>, when that lies between 100 and 999, is not 1xx, 204 or 304, and
  the status is not the number 205.
  When \<^verbatim>\<open>status | 0\<close> is outside 100 to 999 the handler throws a \<^verbatim>\<open>RangeError\<close>;
  when it is 1xx, 204 or 304 the response goes out with that status and no body.
\<close>

theorem error_handler_classification:
  assumes fresh: "sent r = []"
  shows
  "(err_name e = JStr ''SequelizeValidationError'' \<and> err_errors e = JArr es
      \<and> list_all has_props es \<longrightarrow>
      error_handler cv e r =
        Inr (r\<lparr>statusCode := JNum 400,
               sent := [(JNum 400, \<lparr>success = False, message = JStr msg_invalid_data,
                 errors = Some (map message_of es)\<rparr>)]\<rparr>))
   \<and> (err_name e = JStr ''SequelizeUniqueConstraintError'' \<and> err_errors e = JArr es
      \<and> list_all has_props es \<longrightarrow>
      error_handler cv e r =
        Inr (r\<lparr>statusCode := JNum 400,
               sent := [(JNum 400, \<lparr>success = False, message = JStr msg_duplicate_data,
                 errors = Some (map message_of es)\<rparr>)]\<rparr>))
   \<and> (err_name e = JStr ''JsonWebTokenError'' \<longrightarrow>
      error_handler cv e r =
        Inr (r\<lparr>statusCode := JNum 401,
               sent := [(JNum 401, \<lparr>success = False, message = JStr msg_invalid_token,
                 errors = None\<rparr>)]\<rparr>))
   \<and> (\<not> named e \<and> \<not> truthy (err_status e) \<longrightarrow>
      error_handler cv e r =
        Inr (r\<lparr>statusCode := JNum 500,
               sent := [(JNum 500,
                   \<lparr>success = False,
                    message = (if truthy (err_message e) then err_message e
                               else JStr msg_server_error),
                    errors = None\<rparr>)]\<rparr>))
   \<and> (\<not> named e \<and> truthy (err_status e) \<and> to_int32 cv (err_status e) = Inr n
        \<and> 100 \<le> n \<and> n \<le> 999 \<and> \<not> bodiless n \<and> err_status e \<noteq> JNum 205 \<longrightarrow>
      error_handler cv e r =
        Inr (r\<lparr>statusCode := JNum n,
               sent := [(JNum n,
                   \<lparr>success = False,
                    message = (if truthy (err_message e) then err_message e
                               else JStr msg_server_error),
                    errors = None\<rparr>)]\<rparr>))
   \<and> (\<not> named e \<and> truthy (err_status e) \<and> to_int32 cv (err_status e) = Inr n
        \<and> (n < 100 \<or> 999 < n) \<longrightarrow>
      error_handler cv e r = Inl (Thrown RangeError))
   \<and> (\<not> named e \<and> truthy (err_status e) \<and> to_int32 cv (err_status e) = Inr n
        \<and> (n = 204 \<or> n = 304 \<or> (100 \<le> n \<and> n \<le> 199)) \<longrightarrow>
      error_handler cv e r = Inl (NoBody n))"
proof (intro conjI impI)
  assume h: "err_name e = JStr ''SequelizeValidationError'' \<and> err_errors e = JArr es
      \<and> list_all has_props es"
  then have "errors_map (err_errors e) = Inr (map message_of es)"
    by (simp add: map_messages_total)
  with h show "error_handler cv e r =
        Inr (r\<lparr>statusCode := JNum 400,
               sent := [(JNum 400, \<lparr>success = False, message = JStr msg_invalid_data,
                 errors = Some (map message_of es)\<rparr>)]\<rparr>)"
    by (simp add: error_handler_def send_json_const[OF fresh])
next
  assume h: "err_name e = JStr ''SequelizeUniqueConstraintError'' \<and> err_errors e = JArr es
      \<and> list_all has_props es"
  then have "errors_map (err_errors e) = Inr (map message_of es)"
    by (simp add: map_messages_total)
  with h show "error_handler cv e r =
        Inr (r\<lparr>statusCode := JNum 400,
               sent := [(JNum 400, \<lparr>success = False, message = JStr msg_duplicate_data,
                 errors = Some (map message_of es)\<rparr>)]\<rparr>)"
    by (simp add: error_handler_def send_json_const[OF fresh])
next
  assume "err_name e = JStr ''JsonWebTokenError''"
  then show "error_handler cv e r =
        Inr (r\<lparr>statusCode := JNum 401,
               sent := [(JNum 401, \<lparr>success = False, message = JStr msg_invalid_token,
                 errors = None\<rparr>)]\<rparr>)"
    by (simp add: error_handler_def send_json_const[OF fresh])
next
  assume "\<not> named e \<and> \<not> truthy (err_status e)"
  then show "error_handler cv e r =
        Inr (r\<lparr>statusCode := JNum 500,
               sent := [(JNum 500,
                   \<lparr>success = False,
                    message = (if truthy (err_message e) then err_message e
                               else JStr msg_server_error),
                    errors = None\<rparr>)]\<rparr>)"
    by (simp add: error_handler_def named_def js_or_def send_json_const[OF fresh])
next
  assume h: "\<not> named e \<and> truthy (err_status e) \<and> to_int32 cv (err_status e) = Inr n
        \<and> 100 \<le> n \<and> n \<le> 999 \<and> \<not> bodiless n \<and> err_status e \<noteq> JNum 205"
  then have "send_json cv b (res_status (err_status e) r)
               = Inr (r\<lparr>statusCode := JNum n, sent := [(JNum n, b)]\<rparr>)" for b
    using fresh by (intro send_json_valid) auto
  with h show "error_handler cv e r =
        Inr (r\<lparr>statusCode := JNum n,
               sent := [(JNum n,
                   \<lparr>success = False,
                    message = (if truthy (err_message e) then err_message e
                               else JStr msg_server_error),
                    errors = None\<rparr>)]\<rparr>)"
    by (simp add: error_handler_def named_def js_or_def)
next
  assume h: "\<not> named e \<and> truthy (err_status e) \<and> to_int32 cv (err_status e) = Inr n
        \<and> (n < 100 \<or> 999 < n)"
  then have "send_json cv b (res_status (err_status e) r) = Inl (Thrown RangeError)" for b
    using fresh by (intro send_json_range) auto
  with h show "error_handler cv e r = Inl (Thrown RangeError)"
    by (simp add: error_handler_def named_def js_or_def)
next
  assume h: "\<not> named e \<and> truthy (err_status e) \<and> to_int32 cv (err_status e) = Inr n
        \<and> (n = 204 \<or> n = 304 \<or> (100 \<le> n \<and> n \<le> 199))"
  then have "send_json cv b (res_status (err_status e) r) = Inl (NoBody n)" for b
    using fresh by (intro send_json_bodiless) (auto simp: bodiless_def)
  with h show "error_handler cv e r = Inl (NoBody n)"
    by (simp add: error_handler_def named_def js_or_def)
qed

theorem error_handler_classification_witness:
  "error_handler (int32_of pass_on)
      \<lparr>err_name = JStr ''SequelizeValidationError'', err_status = JUndefined,
       err_message = JStr ''Validation error'', err_errors = JArr [JObj [(''message'', JStr ''email is required'')], JStr ''x'']\<rparr> res_init
     = Inr \<lparr>statusCode = JNum 400,
            sent = [(JNum 400, \<lparr>success = False, message = JStr msg_invalid_data,
                                errors = Some [JStr ''email is required'', JUndefined]\<rparr>)]\<rparr>
   \<and> error_handler (int32_of pass_on)
      \<lparr>err_name = JStr ''SequelizeUniqueConstraintError'', err_status = JNum 409,
       err_message = JStr ''Validation error'', err_errors = JArr [JObj [(''message'', JStr ''email must be unique'')]]\<rparr> res_init
     = Inr \<lparr>statusCode = JNum 400,
            sent = [(JNum 400, \<lparr>success = False, message = JStr msg_duplicate_data,
                                errors = Some [JStr ''email must be unique'']\<rparr>)]\<rparr>
   \<and> error_handler (int32_of pass_on)
      \<lparr>err_name = JStr ''JsonWebTokenError'', err_status = JNum 403,
       err_message = JStr ''jwt malformed'', err_errors = JUndefined\<rparr> res_init
     = Inr \<lparr>statusCode = JNum 401,
            sent = [(JNum 401, \<lparr>success = False, message = JStr msg_invalid_token,
                                errors = None\<rparr>)]\<rparr>
   \<and> error_handler (int32_of pass_on)
      \<lparr>err_name = JStr ''Error'', err_status = JUndefined,
       err_message = JStr ''boom'', err_errors = JUndefined\<rparr> res_init
     = Inr \<lparr>statusCode = JNum 500,
            sent = [(JNum 500, \<lparr>success = False, message = JStr ''boom'',
                                errors = None\<rparr>)]\<rparr>
   \<and> error_handler (int32_of pass_on)
      \<lparr>err_name = JStr ''Error'', err_status = JNum 413,
       err_message = JStr ''request entity too large'', err_errors = JUndefined\<rparr> res_init
     = Inr \<lparr>statusCode = JNum 413,
            sent = [(JNum 413, \<lparr>success = False, message = JStr ''request entity too large'',
                                errors = None\<rparr>)]\<rparr>
   \<and> error_handler (int32_of pass_on)
      \<lparr>err_name = JStr ''Error'', err_status = JNum 4294967700,
       err_message = JStr ''not found'', err_errors = JUndefined\<rparr> res_init
     = Inr \<lparr>statusCode = JNum 404,
            sent = [(JNum 404, \<lparr>success = False, message = JStr ''not found'',
                                errors = None\<rparr>)]\<rparr>
   \<and> error_handler (int32_of pass_on)
      \<lparr>err_name = JStr ''Error'', err_status = JNum 1000,
       err_message = JStr ''out of range'', err_errors = JUndefined\<rparr> res_init
     = Inl (Thrown RangeError)
   \<and> error_handler (int32_of pass_on)
      \<lparr>err_name = JStr ''Error'', err_status = JNum 204,
       err_message = JStr ''no content'', err_errors = JUndefined\<rparr> res_init
     = Inl (NoBody 204)"
proof -
  have fresh: "sent res_init = []"
    by (simp add: res_init_def)
  note T = error_handler_classification[OF fresh, where cv = "int32_of pass_on"]
  show ?thesis
    using
      T[where e = "\<lparr>err_name = JStr ''SequelizeValidationError'', err_status = JUndefined,
       err_message = JStr ''Validation error'', err_errors = JArr [JObj [(''message'', JStr ''email is required'')], JStr ''x'']\<rparr>"
          and es = "[JObj [(''message'', JStr ''email is required'')], JStr ''x'']"]
      T[where e = "\<lparr>err_name = JStr ''SequelizeUniqueConstraintError'', err_status = JNum 409,
       err_message = JStr ''Validation error'', err_errors = JArr [JObj [(''message'', JStr ''email must be unique'')]]\<rparr>"
          and es = "[JObj [(''message'', JStr ''email must be unique'')]]"]
      T[where e = "\<lparr>err_name = JStr ''JsonWebTokenError'', err_status = JNum 403,
       err_message = JStr ''jwt malformed'', err_errors = JUndefined\<rparr>"]
      T[where e = "\<lparr>err_name = JStr ''Error'', err_status = JUndefined,
       err_message = JStr ''boom'', err_errors = JUndefined\<rparr>"]
      T[where e = "\<lparr>err_name = JStr ''Error'', err_status = JNum 413,
       err_message = JStr ''request entity too large'', err_errors = JUndefined\<rparr>" and n = 413]
      T[where e = "\<lparr>err_name = JStr ''Error'', err_status = JNum 4294967700,
       err_message = JStr ''not found'', err_errors = JUndefined\<rparr>" and n = 404]
      T[where e = "\<lparr>err_name = JStr ''Error'', err_status = JNum 1000,
       err_message = JStr ''out of range'', err_errors = JUndefined\<rparr>" and n = 1000]
      T[where e = "\<lparr>err_name = JStr ''Error'', err_status = JNum 204,
       err_message = JStr ''no content'', err_errors = JUndefined\<rparr>" and n = 204]
    by (simp add: res_init_def named_def message_of_def obj_get_def wrap32_def bodiless_def)
qed

subsection \<open>One response, or none\<close>

text \<open>
  A uniqueness-named error whose \<^verbatim>\<open>errors\<close> is not an array: the handler throws a
  \<^verbatim>\<open>TypeError\<close> and sends nothing. An error with the status 1000: the handler
  throws a \<^verbatim>\<open>RangeError\<close> and sends nothing.
\<close>

theorem error_handler_single_response_counterexample:
  "error_handler (int32_of pass_on)
      \<lparr>err_name = JStr ''SequelizeUniqueConstraintError'', err_status = JUndefined,
       err_message = JStr ''Validation error'', err_errors = JStr ''email''\<rparr> res_init
     = Inl (Thrown TypeError)
   \<and> error_handler (int32_of pass_on)
      \<lparr>err_name = JStr ''Error'', err_status = JNum 1000,
       err_message = JStr ''out of range'', err_errors = JUndefined\<rparr> res_init
     = Inl (Thrown RangeError)"
  by (simp add: error_handler_def send_json_def res_status_def js_or_def res_init_def
      wrap32_def)

text \<open>
  Claim C2, as the code has it. On a response that has not gone out, the handler returns
  normally and exactly one JSON response has gone out, for every error that meets two
  conditions: its name is neither of the two data-layer names or its \<^verbatim>\<open>errors\<close> is
  an array without \<^verbatim>\<open>undefined\<close> or \<^verbatim>\<open>null\<close> elements; and its name is one of
  the three, or its status is falsy, or \<^verbatim>\<open>status | 0\<close> lies between 100 and 999,
  is not 1xx, 204 or 304, and the status is not the number 205. Otherwise: an error that fails the first condition makes the
  handler throw a \<^verbatim>\<open>TypeError\<close>; on a response that has gone out it throws; a
  status outside 100 to 999 makes it throw a \<^verbatim>\<open>RangeError\<close>; and a status 1xx, 204
  or 304 goes out without a body.
\<close>

theorem error_handler_single_response:
  "(sent r = [] \<and> well_formed e \<and> status_fine cv e \<longrightarrow>
      (\<exists>r' x. error_handler cv e r = Inr r' \<and> sent r' = [x]))
   \<and> (\<not> well_formed e \<longrightarrow> error_handler cv e r = Inl (Thrown TypeError))
   \<and> (well_formed e \<and> sent r \<noteq> [] \<longrightarrow> error_handler cv e r = Inl (Thrown HeadersSent))
   \<and> (sent r = [] \<and> \<not> named e \<and> truthy (err_status e)
        \<and> to_int32 cv (err_status e) = Inr n \<and> (n < 100 \<or> 999 < n) \<longrightarrow>
      error_handler cv e r = Inl (Thrown RangeError))
   \<and> (sent r = [] \<and> \<not> named e \<and> truthy (err_status e)
        \<and> to_int32 cv (err_status e) = Inr n
        \<and> (n = 204 \<or> n = 304 \<or> (100 \<le> n \<and> n \<le> 199)) \<longrightarrow>
      error_handler cv e r = Inl (NoBody n))"
proof (intro conjI impI)
  assume h: "sent r = [] \<and> well_formed e \<and> status_fine cv e"
  then have fresh: "sent r = []" by simp
  show "\<exists>r' x. error_handler cv e r = Inr r' \<and> sent r' = [x]"
  proof (cases "err_name e = JStr ''SequelizeValidationError''
                \<or> err_name e = JStr ''SequelizeUniqueConstraintError''")
    case True
    with h have "mappable (err_errors e)" by (simp add: well_formed_def)
    then obtain ms where "errors_map (err_errors e) = Inr ms"
      using errors_map_ok by blast
    with True show ?thesis
      by (auto simp: error_handler_def send_json_const[OF fresh])
  next
    case False
    note other = this
    show ?thesis
    proof (cases "err_name e = JStr ''JsonWebTokenError''")
      case True
      with other show ?thesis
        by (simp add: error_handler_def send_json_const[OF fresh])
    next
      case False
      with other have nn: "\<not> named e" by (simp add: named_def)
      show ?thesis
      proof (cases "truthy (err_status e)")
        case False
        with nn other show ?thesis
          by (simp add: error_handler_def named_def js_or_def send_json_const[OF fresh])
      next
        case True
        with h nn obtain n where n: "to_int32 cv (err_status e) = Inr n"
          "100 \<le> n" "n \<le> 999" "\<not> bodiless n" "err_status e \<noteq> JNum 205"
          by (auto simp: status_fine_def split: sum.splits)
        have "send_json cv b (res_status (err_status e) r)
                = Inr (r\<lparr>statusCode := JNum n, sent := [(JNum n, b)]\<rparr>)" for b
          using fresh n by (rule send_json_valid)
        with True nn show ?thesis
          by (simp add: error_handler_def named_def js_or_def)
      qed
    qed
  qed
next
  assume "\<not> well_formed e"
  then have n: "err_name e = JStr ''SequelizeValidationError''
                \<or> err_name e = JStr ''SequelizeUniqueConstraintError''"
    and "\<not> mappable (err_errors e)"
    by (auto simp: well_formed_def split: if_splits)
  then have "errors_map (err_errors e) = Inl TypeError"
    using errors_map_throws by blast
  with n show "error_handler cv e r = Inl (Thrown TypeError)"
    by (auto simp: error_handler_def)
next
  assume h: "well_formed e \<and> sent r \<noteq> []"
  then have started: "send_json cv b (res_status c r) = Inl (Thrown HeadersSent)" for b c
    by (simp add: send_json_started)
  show "error_handler cv e r = Inl (Thrown HeadersSent)"
  proof (cases "err_name e = JStr ''SequelizeValidationError''
                \<or> err_name e = JStr ''SequelizeUniqueConstraintError''")
    case True
    with h have "mappable (err_errors e)" by (simp add: well_formed_def)
    then obtain ms where "errors_map (err_errors e) = Inr ms"
      using errors_map_ok by blast
    with True show ?thesis
      by (auto simp: error_handler_def started)
  next
    case False
    then show ?thesis
      by (simp add: error_handler_def started)
  qed
next
  assume h: "sent r = [] \<and> \<not> named e \<and> truthy (err_status e)
        \<and> to_int32 cv (err_status e) = Inr n \<and> (n < 100 \<or> 999 < n)"
  then have "send_json cv b (res_status (err_status e) r) = Inl (Thrown RangeError)" for b
    by (intro send_json_range) auto
  with h show "error_handler cv e r = Inl (Thrown RangeError)"
    by (simp add: error_handler_def named_def js_or_def)
next
  assume h: "sent r = [] \<and> \<not> named e \<and> truthy (err_status e)
        \<and> to_int32 cv (err_status e) = Inr n
        \<and> (n = 204 \<or> n = 304 \<or> (100 \<le> n \<and> n \<le> 199))"
  then have "send_json cv b (res_status (err_status e) r) = Inl (NoBody n)" for b
    by (intro send_json_bodiless) (auto simp: bodiless_def)
  with h show "error_handler cv e r = Inl (NoBody n)"
    by (simp add: error_handler_def named_def js_or_def)
qed

theorem error_handler_single_response_witness:
  "well_formed
      \<lparr>err_name = JStr ''SequelizeValidationError'', err_status = JUndefined,
       err_message = JStr ''Validation error'', err_errors = JArr [JObj [(''message'', JStr ''email is required'')], JStr ''x'']\<rparr>
   \<and> status_fine (int32_of pass_on)
      \<lparr>err_name = JStr ''SequelizeValidationError'', err_status = JUndefined,
       err_message = JStr ''Validation error'', err_errors = JArr [JObj [(''message'', JStr ''email is required'')], JStr ''x'']\<rparr>
   \<and> (\<exists>r' x. error_handler (int32_of pass_on)
      \<lparr>err_name = JStr ''SequelizeValidationError'', err_status = JUndefined,
       err_message = JStr ''Validation error'', err_errors = JArr [JObj [(''message'', JStr ''email is required'')], JStr ''x'']\<rparr> res_init = Inr r' \<and> sent r' = [x])
   \<and> status_fine (int32_of pass_on)
      \<lparr>err_name = JStr ''Error'', err_status = JNum 4294967700,
       err_message = JStr ''not found'', err_errors = JUndefined\<rparr>
   \<and> (\<exists>r' x. error_handler (int32_of pass_on)
      \<lparr>err_name = JStr ''Error'', err_status = JNum 4294967700,
       err_message = JStr ''not found'', err_errors = JUndefined\<rparr> res_init = Inr r' \<and> sent r' = [x])
   \<and> error_handler (int32_of pass_on)
      \<lparr>err_name = JStr ''SequelizeValidationError'', err_status = JUndefined,
       err_message = JStr ''Validation error'', err_errors = JArr [JNull]\<rparr> res_init
       = Inl (Thrown TypeError)
   \<and> error_handler (int32_of pass_on)
      \<lparr>err_name = JStr ''Error'', err_status = JUndefined,
       err_message = JStr ''boom'', err_errors = JUndefined\<rparr> 
      \<lparr>statusCode = JNum 200,
       sent = [(JNum 200, \<lparr>success = True, message = JStr ''ok'', errors = None\<rparr>)]\<rparr>
       = Inl (Thrown HeadersSent)
   \<and> error_handler (int32_of pass_on)
      \<lparr>err_name = JStr ''Error'', err_status = JNum 1000,
       err_message = JStr ''out of range'', err_errors = JUndefined\<rparr> res_init
       = Inl (Thrown RangeError)
   \<and> error_handler (int32_of pass_on)
      \<lparr>err_name = JStr ''Error'', err_status = JNum 204,
       err_message = JStr ''no content'', err_errors = JUndefined\<rparr> res_init
       = Inl (NoBody 204)"
proof -
  note T = error_handler_single_response[where cv = "int32_of pass_on"]
  have wf1: "well_formed
      \<lparr>err_name = JStr ''SequelizeValidationError'', err_status = JUndefined,
       err_message = JStr ''Validation error'', err_errors = JArr [JObj [(''message'', JStr ''email is required'')], JStr ''x'']\<rparr>"
    and sf1: "status_fine (int32_of pass_on)
      \<lparr>err_name = JStr ''SequelizeValidationError'', err_status = JUndefined,
       err_message = JStr ''Validation error'', err_errors = JArr [JObj [(''message'', JStr ''email is required'')], JStr ''x'']\<rparr>"
    and wf2: "well_formed
      \<lparr>err_name = JStr ''Error'', err_status = JNum 4294967700,
       err_message = JStr ''not found'', err_errors = JUndefined\<rparr>"
    and sf2: "status_fine (int32_of pass_on)
      \<lparr>err_name = JStr ''Error'', err_status = JNum 4294967700,
       err_message = JStr ''not found'', err_errors = JUndefined\<rparr>"
    by (simp_all add: well_formed_def status_fine_def named_def wrap32_def bodiless_def)
  show ?thesis
    using wf1 sf1 sf2
      T[where e = "\<lparr>err_name = JStr ''SequelizeValidationError'', err_status = JUndefined,
       err_message = JStr ''Validation error'', err_errors = JArr [JObj [(''message'', JStr ''email is required'')], JStr ''x'']\<rparr>" and r = res_init]
      T[where e = "\<lparr>err_name = JStr ''Error'', err_status = JNum 4294967700,
       err_message = JStr ''not found'', err_errors = JUndefined\<rparr>" and r = res_init]
      T[where e = "\<lparr>err_name = JStr ''SequelizeValidationError'', err_status = JUndefined,
       err_message = JStr ''Validation error'', err_errors = JArr [JNull]\<rparr>" and r = res_init]
      T[where e = "\<lparr>err_name = JStr ''Error'', err_status = JUndefined,
       err_message = JStr ''boom'', err_errors = JUndefined\<rparr>"
          and r = "\<lparr>statusCode = JNum 200,
       sent = [(JNum 200, \<lparr>success = True, message = JStr ''ok'', errors = None\<rparr>)]\<rparr>"]
      T[where e = "\<lparr>err_name = JStr ''Error'', err_status = JNum 1000,
       err_message = JStr ''out of range'', err_errors = JUndefined\<rparr>" and r = res_init and n = 1000]
      T[where e = "\<lparr>err_name = JStr ''Error'', err_status = JNum 204,
       err_message = JStr ''no content'', err_errors = JUndefined\<rparr>" and r = res_init and n = 204]
    by (simp add: res_init_def well_formed_def status_fine_def named_def wrap32_def bodiless_def)
qed

section \<open>The envelope of the error responses\<close>

text \<open>
  Claim C3. Each of the three places that answer an error does so with
  \<^verbatim>\<open>success: false\<close>: the error handler (whenever it answers), the limiter's
  rejection in each of the three files, and the 404 handler. The \<^verbatim>\<open>errors\<close> key is
  present only in an answer of the error handler to an error named
  \<^verbatim>\<open>SequelizeValidationError\<close> or \<^verbatim>\<open>SequelizeUniqueConstraintError\<close>; the
  limiter's body and the 404 body have none.
\<close>

theorem error_replies_envelope:
  "(error_handler cv e r = Inr r' \<longrightarrow>
      (\<exists>c b. sent r' = sent r @ [(c, b)] \<and> success b = False
         \<and> (errors b \<noteq> None \<longrightarrow>
              err_name e = JStr ''SequelizeValidationError''
              \<or> err_name e = JStr ''SequelizeUniqueConstraintError'')))
   \<and> (limiter (limiter_options v) now k t = (Reply rp, t') \<longrightarrow>
        (\<exists>b. rp = Json (JNum 429) b \<and> success b = False \<and> errors b = None))
   \<and> (\<exists>b. sent (not_found_handler v req r) = sent r @ [(JNum 404, b)]
         \<and> success b = False \<and> errors b = None)"
proof (intro conjI impI)
  assume "error_handler cv e r = Inr r'"
  then show "\<exists>c b. sent r' = sent r @ [(c, b)] \<and> success b = False
         \<and> (errors b \<noteq> None \<longrightarrow>
              err_name e = JStr ''SequelizeValidationError''
              \<or> err_name e = JStr ''SequelizeUniqueConstraintError'')"
    by (auto simp: error_handler_def send_json_def res_json_def res_status_def
        split: if_splits sum.splits)
next
  assume "limiter (limiter_options v) now k t = (Reply rp, t')"
  then show "\<exists>b. rp = Json (JNum 429) b \<and> success b = False \<and> errors b = None"
    by (cases v) (auto simp: limiter_def limiter_options_def Let_def split: if_splits)
next
  show "\<exists>b. sent (not_found_handler v req r) = sent r @ [(JNum 404, b)]
         \<and> success b = False \<and> errors b = None"
    by (simp add: not_found_handler_def res_json_def res_status_def)
qed

theorem error_replies_envelope_witness:
  "error_handler (int32_of pass_on)
      \<lparr>err_name = JStr ''SequelizeUniqueConstraintError'', err_status = JUndefined,
                  err_message = JStr ''Validation error'',
                  err_errors = JArr [JObj [(''message'', JStr ''email must be unique'')]]\<rparr> res_init
     = Inr \<lparr>statusCode = JNum 400,
            sent = [(JNum 400, \<lparr>success = False, message = JStr msg_duplicate_data,
                                errors = Some [JStr ''email must be unique'']\<rparr>)]\<rparr>
   \<and> (\<exists>c b. sent \<lparr>statusCode = JNum 400,
                    sent = [(JNum 400, \<lparr>success = False, message = JStr msg_duplicate_data,
                                        errors = Some [JStr ''email must be unique'']\<rparr>)]\<rparr>
              = sent res_init @ [(c, b)] \<and> success b = False
         \<and> (errors b \<noteq> None \<longrightarrow>
              JStr ''SequelizeUniqueConstraintError'' = JStr ''SequelizeValidationError''
              \<or> JStr ''SequelizeUniqueConstraintError'' = JStr ''SequelizeUniqueConstraintError''))
   \<and> limiter (limiter_options Server_js) 1000 ''203.0.113.7''
        [''203.0.113.7'' \<mapsto> \<lparr>hits = 1200, resetTime = 6000000\<rparr>]
     = (Reply (Json (JNum 429)
                \<lparr>success = False, message = JStr msg_rate_server_js, errors = None\<rparr>),
        [''203.0.113.7'' \<mapsto> \<lparr>hits = 1201, resetTime = 6000000\<rparr>])
   \<and> (\<exists>b. Json (JNum 429) \<lparr>success = False, message = JStr msg_rate_server_js, errors = None\<rparr>
            = Json (JNum 429) b \<and> success b = False \<and> errors b = None)"
proof -
  have a: "error_handler (int32_of pass_on)
      \<lparr>err_name = JStr ''SequelizeUniqueConstraintError'', err_status = JUndefined,
                  err_message = JStr ''Validation error'',
                  err_errors = JArr [JObj [(''message'', JStr ''email must be unique'')]]\<rparr> res_init
     = Inr \<lparr>statusCode = JNum 400,
            sent = [(JNum 400, \<lparr>success = False, message = JStr msg_duplicate_data,
                                errors = Some [JStr ''email must be unique'']\<rparr>)]\<rparr>"
    by (simp add: error_handler_def send_json_def res_json_def res_status_def res_init_def
        obj_get_def wrap32_def bodiless_def)
  have b: "limiter (limiter_options Server_js) 1000 ''203.0.113.7''
        [''203.0.113.7'' \<mapsto> \<lparr>hits = 1200, resetTime = 6000000\<rparr>]
     = (Reply (Json (JNum 429)
                \<lparr>success = False, message = JStr msg_rate_server_js, errors = None\<rparr>),
        [''203.0.113.7'' \<mapsto> \<lparr>hits = 1201, resetTime = 6000000\<rparr>])"
    by (simp add: limiter_def increment_def hits_of_def limiter_options_def)
  show ?thesis
    using a b
      error_replies_envelope
        [of "int32_of pass_on"
            "\<lparr>err_name = JStr ''SequelizeUniqueConstraintError'', err_status = JUndefined,
              err_message = JStr ''Validation error'',
              err_errors = JArr [JObj [(''message'', JStr ''email must be unique'')]]\<rparr>"
            res_init
            "\<lparr>statusCode = JNum 400,
              sent = [(JNum 400, \<lparr>success = False, message = JStr msg_duplicate_data,
                                  errors = Some [JStr ''email must be unique'']\<rparr>)]\<rparr>"
            Server_js 1000 "''203.0.113.7''"
            "[''203.0.113.7'' \<mapsto> \<lparr>hits = 1200, resetTime = 6000000\<rparr>]"
            "Json (JNum 429)
                \<lparr>success = False, message = JStr msg_rate_server_js, errors = None\<rparr>"
            "[''203.0.113.7'' \<mapsto> \<lparr>hits = 1201, resetTime = 6000000\<rparr>]"]
    by simp
qed

section \<open>Properties of the dispatch\<close>

lemma dispatch_append:
  "dispatch d now xs req pend st tr = (Exhausted p, st', tr')
   \<Longrightarrow> dispatch d now (xs @ ys) req pend st tr = dispatch d now ys req p st' tr'"
proof (induction xs arbitrary: pend st tr)
  case Nil
  then show ?case by simp
next
  case (Cons x xs)
  obtain m lid where x: "x = (m, lid)" by (cases x)
  show ?case
    using Cons.prems Cons.IH unfolding x
    by (auto split: if_splits option.splits prod.splits action.splits sum.splits no_json.splits)
qed

lemma dispatch_pending_skip:
  "\<forall>l \<in> set xs. snd l \<noteq> ErrorHandler
   \<Longrightarrow> dispatch d now xs req (Some e) st tr = (Exhausted (Some e), st, tr)"
  by (induction xs) auto

lemma dispatch_trace:
  "dispatch d now xs req pend st tr = (out, st', tr')
   \<Longrightarrow> set tr' \<subseteq> set tr \<union> snd ` set xs"
proof (induction xs arbitrary: pend st tr)
  case Nil
  then show ?case by auto
next
  case (Cons x xs)
  obtain m lid where x: "x = (m, lid)" by (cases x)
  show ?case
    using Cons.prems Cons.IH unfolding x
    by (fastforce split: if_splits option.splits prod.splits action.splits sum.splits no_json.splits)
qed

lemma run_layer_counters:
  "lid \<noteq> Limiter \<Longrightarrow> run_layer d now lid req st = (a, st') \<Longrightarrow> counters st' = counters st"
  by (cases lid) (auto simp: cors_layer_def split: cb_result.splits)

lemma dispatch_limiter_frame:
  "\<forall>l \<in> set xs. snd l = Limiter \<longrightarrow> \<not> applies d (fst l) req
   \<Longrightarrow> dispatch d now xs req pend st tr = (out, st', tr')
   \<Longrightarrow> counters st' = counters st \<and> (Limiter \<in> set tr' \<longrightarrow> Limiter \<in> set tr)"
proof (induction xs arbitrary: pend st tr)
  case Nil
  then show ?case by auto
next
  case (Cons x xs)
  obtain m lid where x: "x = (m, lid)" by (cases x)
  show ?case
    using Cons.prems Cons.IH unfolding x
    by (fastforce split: if_splits option.splits prod.splits action.splits sum.splits no_json.splits
        dest: run_layer_counters)
qed

lemma after_cors_no_error_layer:
  "\<forall>l \<in> set (parsers @ statics @ routes). snd l \<noteq> ErrorHandler"
  by (simp add: parsers_def statics_def routes_def)

lemma applies_root: "applies d ''/'' req"
  by (simp add: applies_def)

lemma error_handler_cors_error:
  "error_handler cv (new_Error ''CORS Policy Blocks This Request'') res_init =
     Inr \<lparr>statusCode = JNum 500,
          sent = [(JNum 500, \<lparr>success = False,
                              message = JStr ''CORS Policy Blocks This Request'',
                              errors = None\<rparr>)]\<rparr>"
  by (simp add: error_handler_def new_Error_def send_json_def res_json_def res_status_def
      res_init_def js_or_def wrap32_def bodiless_def)

lemma not_found_answer:
  "answered (not_found_handler v req res_init) =
     Reply (Json (JNum 404)
              \<lparr>success = False, message = JStr (not_found_message v req), errors = None\<rparr>)"
  by (simp add: answered_def not_found_handler_def res_json_def res_status_def res_init_def)

lemma front_no_router: "Router name \<notin> snd ` set (front v)"
  by (cases v) (auto simp: front_def)

lemma lower_Char:
  "lower (Char b0 b1 b2 b3 b4 b5 b6 b7) =
     Char b0 b1 b2 b3 b4
       (b5 \<or> (b6 \<and> \<not> b7 \<and> (b0 \<or> b1 \<or> b2 \<or> b3 \<or> b4)
              \<and> \<not> (b3 \<and> b4 \<and> (b2 \<or> (b0 \<and> b1)))))
       b6 b7"
  by (cases b0; cases b1; cases b2; cases b3; cases b4; cases b5; cases b6; cases b7)
     (simp_all add: lower_def)

lemmas ex_defs = example_deploy_def pass_on_def get_request_def front_def parsers_def statics_def
  routes_def stack_def applies_def under_mount_def mount_stem_def lower_Char req_path_def
  header_def

section \<open>The rate limiter\<close>

lemma increment_hits:
  "hits_of (increment opts now k t) k =
     (if t k = None \<or> (\<exists>c. t k = Some c \<and> resetTime c \<le> now) then 1 else hits_of t k + 1)"
  by (auto simp: increment_def hits_of_def split: option.splits)

lemma increment_other: "k' \<noteq> k \<Longrightarrow> increment opts now k t k' = t k'"
  by (simp add: increment_def split: option.splits)

lemma increment_fresh:
  "t k = None \<or> (\<exists>c. t k = Some c \<and> resetTime c \<le> now)
   \<Longrightarrow> increment opts now k t = t(k \<mapsto> \<lparr>hits = 1, resetTime = now + windowMs opts\<rparr>)"
  by (auto simp: increment_def split: option.splits)

lemma increment_running:
  "t k = Some \<lparr>hits = h, resetTime = rt\<rparr> \<Longrightarrow> now < rt
   \<Longrightarrow> increment opts now k t = t(k \<mapsto> \<lparr>hits = Suc h, resetTime = rt\<rparr>)"
  by (simp add: increment_def)

lemma limiter_run_in_window:
  "t k = Some \<lparr>hits = h, resetTime = rt\<rparr> \<Longrightarrow> \<forall>n \<in> set ns. n < rt
   \<Longrightarrow> limiter_run opts k ns t =
        (map (\<lambda>j. verdict opts (h + j)) [0..<length ns],
         t(k \<mapsto> \<lparr>hits = h + length ns, resetTime = rt\<rparr>))"
proof (induction ns arbitrary: t h)
  case Nil
  then show ?case by (simp add: fun_upd_idem)
next
  case (Cons n ns)
  let ?t = "t(k \<mapsto> \<lparr>hits = Suc h, resetTime = rt\<rparr>)"
  have inc: "increment opts n k t = ?t"
    using Cons.prems by (simp add: increment_running)
  have step: "limiter opts n k t = (verdict opts h, ?t)"
    by (auto simp: limiter_def inc hits_of_def verdict_def)
  have a: "?t k = Some \<lparr>hits = Suc h, resetTime = rt\<rparr>" by simp
  have b: "\<forall>n \<in> set ns. n < rt" using Cons.prems by simp
  have "limiter_run opts k ns ?t =
        (map (\<lambda>j. verdict opts (Suc h + j)) [0..<length ns],
         ?t(k \<mapsto> \<lparr>hits = Suc h + length ns, resetTime = rt\<rparr>))"
    using a b by (rule Cons.IH)
  then have run: "limiter_run opts k ns ?t =
        (map (\<lambda>j. verdict opts (Suc h + j)) [0..<length ns],
         t(k \<mapsto> \<lparr>hits = Suc h + length ns, resetTime = rt\<rparr>))"
    by simp
  have e1: "limiter_run opts k (n # ns) t =
        (verdict opts h # map (\<lambda>j. verdict opts (Suc h + j)) [0..<length ns],
         t(k \<mapsto> \<lparr>hits = Suc h + length ns, resetTime = rt\<rparr>))"
    by (simp add: step run)
  have e2: "map (\<lambda>j. verdict opts (h + j)) [0..<length (n # ns)] =
        verdict opts h # map (\<lambda>j. verdict opts (Suc h + j)) [0..<length ns]"
    by (simp add: map_upt_Suc del: upt_Suc)
  have e3: "h + length (n # ns) = Suc h + length ns"
    by simp
  show ?case
    unfolding e1 e2 e3 by (rule refl)
qed

lemma limiter_run_fresh:
  assumes fresh: "t k = None \<or> (\<exists>c. t k = Some c \<and> resetTime c \<le> n0)"
      and win: "\<forall>n \<in> set ns. n < n0 + windowMs opts"
  shows "limiter_run opts k (n0 # ns) t =
           (map (verdict opts) [0..<Suc (length ns)],
            t(k \<mapsto> \<lparr>hits = Suc (length ns), resetTime = n0 + windowMs opts\<rparr>))"
proof -
  let ?t = "t(k \<mapsto> \<lparr>hits = Suc 0, resetTime = n0 + windowMs opts\<rparr>)"
  have inc: "increment opts n0 k t = ?t"
    using fresh by (simp add: increment_fresh)
  have step: "limiter opts n0 k t = (verdict opts 0, ?t)"
    by (auto simp: limiter_def inc hits_of_def verdict_def)
  have a: "?t k = Some \<lparr>hits = Suc 0, resetTime = n0 + windowMs opts\<rparr>" by simp
  have "limiter_run opts k ns ?t =
        (map (\<lambda>j. verdict opts (Suc 0 + j)) [0..<length ns],
         ?t(k \<mapsto> \<lparr>hits = Suc 0 + length ns, resetTime = n0 + windowMs opts\<rparr>))"
    using a win by (rule limiter_run_in_window)
  then have run: "limiter_run opts k ns ?t =
        (map (\<lambda>j. verdict opts (Suc j)) [0..<length ns],
         t(k \<mapsto> \<lparr>hits = Suc (length ns), resetTime = n0 + windowMs opts\<rparr>))"
    by simp
  have e1: "limiter_run opts k (n0 # ns) t =
        (verdict opts 0 # map (\<lambda>j. verdict opts (Suc j)) [0..<length ns],
         t(k \<mapsto> \<lparr>hits = Suc (length ns), resetTime = n0 + windowMs opts\<rparr>))"
    by (simp add: step run)
  have e2: "map (verdict opts) [0..<Suc (length ns)] =
        verdict opts 0 # map (\<lambda>j. verdict opts (Suc j)) [0..<length ns]"
    by (simp add: map_upt_Suc del: upt_Suc)
  show ?thesis
    unfolding e1 e2 by (rule refl)
qed

lemma limiter_run_append:
  "limiter_run opts k (xs @ ys) t =
     (case limiter_run opts k xs t of
        (as, t') \<Rightarrow> (case limiter_run opts k ys t' of (bs, t'') \<Rightarrow> (as @ bs, t'')))"
  by (induction xs arbitrary: t) (auto split: prod.splits)

lemma verdict_fun:
  "verdict opts =
     (\<lambda>j. if j < max_opt opts then Next else Reply (Json (JNum 429) (message_opt opts)))"
  by (rule ext) (simp add: verdict_def)

lemma limiter_rejects_dispatch:
  assumes reach: "dispatch d now (front (variant d)) req None st0 [] = (Exhausted None, st, tr)"
      and mount: "mount_match (collab d) ''/api/'' (req_path req)"
      and over: "max_opt (limiter_options (variant d))
                   < hits_of (increment (limiter_options (variant d)) now (ip req) (counters st))
                       (ip req)"
  shows "dispatch d now (stack (variant d)) req None st0 [] =
           (Sent (Json (JNum 429) (message_opt (limiter_options (variant d)))),
            st\<lparr>counters := increment (limiter_options (variant d)) now (ip req) (counters st)\<rparr>,
            tr @ [Limiter])
         \<and> (\<forall>name. Router name \<notin> set (tr @ [Limiter]))"
proof -
  let ?rest = "[(''/'', Cors)] @ parsers @ statics @ routes
               @ [(''/'', ErrorHandler)] @ [(''/'', NotFound)]"
  have split: "stack (variant d) = front (variant d) @ ((''/api/'', Limiter) # ?rest)"
    by (simp add: stack_def)
  have lim: "limiter (limiter_options (variant d)) now (ip req) (counters st) =
      (Reply (Json (JNum 429) (message_opt (limiter_options (variant d)))),
       increment (limiter_options (variant d)) now (ip req) (counters st))"
    using over by (simp add: limiter_def)
  have "dispatch d now (stack (variant d)) req None st0 [] =
        dispatch d now ((''/api/'', Limiter) # ?rest) req None st tr"
    unfolding split using reach by (rule dispatch_append)
  also have "\<dots> =
      (Sent (Json (JNum 429) (message_opt (limiter_options (variant d)))),
       st\<lparr>counters := increment (limiter_options (variant d)) now (ip req) (counters st)\<rparr>,
       tr @ [Limiter])"
    using mount by (simp add: applies_def lim)
  finally have sent: "dispatch d now (stack (variant d)) req None st0 [] =
      (Sent (Json (JNum 429) (message_opt (limiter_options (variant d)))),
       st\<lparr>counters := increment (limiter_options (variant d)) now (ip req) (counters st)\<rparr>,
       tr @ [Limiter])" .
  have "set tr \<subseteq> set [] \<union> snd ` set (front (variant d))"
    using reach by (rule dispatch_trace)
  then have "\<forall>name. Router name \<notin> set (tr @ [Limiter])"
    using front_no_router by auto
  with sent show ?thesis by simp
qed

text \<open>
  Claim C4, for the counting of the limiter as the spec gives it and the options of the
  entry files. A request creates or resets its client's counter to 1 when there is none
  or its window has elapsed, and adds 1 otherwise; the counters of other clients stay as
  they are. Where failed requests are not skipped (\<^verbatim>\<open>server.js\<close> and \<^verbatim>\<open>part_001\<close>): of the
  requests that one client sends within the window its first one opens, those up to
  number \<^verbatim>\<open>max\<close> are handed on and every later one, the \<open>(max+1)\<close>-th first, gets
  the configured body; once the window has elapsed the count starts again, and the next
  \<^verbatim>\<open>max\<close> requests of a window are handed on. In the stack, a request on the
  \<^verbatim>\<open>/api/\<close> mount whose count exceeds \<^verbatim>\<open>max\<close> is answered by the limiter with
  that body, and no router has run for it.
\<close>

theorem rate_limit_window:
  "hits_of (increment opts now k u) k =
     (if u k = None \<or> (\<exists>c. u k = Some c \<and> resetTime c \<le> now) then 1 else hits_of u k + 1)
   \<and> (k' \<noteq> k \<longrightarrow> increment opts now k u k' = u k')
   \<and> (\<not> skipFailedRequests opts
        \<and> (t k = None \<or> (\<exists>c. t k = Some c \<and> resetTime c \<le> n0))
        \<and> (\<forall>n \<in> set ns. n0 \<le> n \<and> n < n0 + windowMs opts)
      \<longrightarrow> fst (limiter_run opts k (n0 # ns) t) =
            map (\<lambda>j. if j < max_opt opts then Next
                     else Reply (Json (JNum 429) (message_opt opts)))
              [0..<Suc (length ns)]
          \<and> (n0 + windowMs opts \<le> n1 \<and> (\<forall>n \<in> set ms. n1 \<le> n \<and> n < n1 + windowMs opts)
              \<longrightarrow> fst (limiter_run opts k ((n0 # ns) @ (n1 # ms)) t) =
                    map (\<lambda>j. if j < max_opt opts then Next
                             else Reply (Json (JNum 429) (message_opt opts)))
                      [0..<Suc (length ns)]
                    @ map (\<lambda>j. if j < max_opt opts then Next
                               else Reply (Json (JNum 429) (message_opt opts)))
                        [0..<Suc (length ms)]))
   \<and> (dispatch d now (front (variant d)) req None st0 [] = (Exhausted None, st, tr)
        \<and> mount_match (collab d) ''/api/'' (req_path req)
        \<and> max_opt (limiter_options (variant d))
            < hits_of (increment (limiter_options (variant d)) now (ip req) (counters st)) (ip req)
      \<longrightarrow> dispatch d now (stack (variant d)) req None st0 [] =
            (Sent (Json (JNum 429) (message_opt (limiter_options (variant d)))),
             st\<lparr>counters := increment (limiter_options (variant d)) now (ip req) (counters st)\<rparr>,
             tr @ [Limiter])
          \<and> (\<forall>name. Router name \<notin> set (tr @ [Limiter])))"
proof (intro conjI impI)
  show "hits_of (increment opts now k u) k =
     (if u k = None \<or> (\<exists>c. u k = Some c \<and> resetTime c \<le> now) then 1 else hits_of u k + 1)"
    by (rule increment_hits)
next
  assume "k' \<noteq> k"
  then show "increment opts now k u k' = u k'" by (rule increment_other)
next
  assume h: "\<not> skipFailedRequests opts
        \<and> (t k = None \<or> (\<exists>c. t k = Some c \<and> resetTime c \<le> n0))
        \<and> (\<forall>n \<in> set ns. n0 \<le> n \<and> n < n0 + windowMs opts)"
  then have "limiter_run opts k (n0 # ns) t =
           (map (verdict opts) [0..<Suc (length ns)],
            t(k \<mapsto> \<lparr>hits = Suc (length ns), resetTime = n0 + windowMs opts\<rparr>))"
    by (intro limiter_run_fresh) auto
  then show "fst (limiter_run opts k (n0 # ns) t) =
            map (\<lambda>j. if j < max_opt opts then Next
                     else Reply (Json (JNum 429) (message_opt opts)))
              [0..<Suc (length ns)]"
    by (simp only: fst_conv verdict_fun)
next
  assume h: "\<not> skipFailedRequests opts
        \<and> (t k = None \<or> (\<exists>c. t k = Some c \<and> resetTime c \<le> n0))
        \<and> (\<forall>n \<in> set ns. n0 \<le> n \<and> n < n0 + windowMs opts)"
    and l: "n0 + windowMs opts \<le> n1 \<and> (\<forall>n \<in> set ms. n1 \<le> n \<and> n < n1 + windowMs opts)"
  let ?t = "t(k \<mapsto> \<lparr>hits = Suc (length ns), resetTime = n0 + windowMs opts\<rparr>)"
  have r1: "limiter_run opts k (n0 # ns) t = (map (verdict opts) [0..<Suc (length ns)], ?t)"
    using h by (intro limiter_run_fresh) auto
  have "?t k = None \<or> (\<exists>c. ?t k = Some c \<and> resetTime c \<le> n1)"
    using l by simp
  moreover have "\<forall>n \<in> set ms. n < n1 + windowMs opts"
    using l by simp
  ultimately have r2: "limiter_run opts k (n1 # ms) ?t =
      (map (verdict opts) [0..<Suc (length ms)],
       ?t(k \<mapsto> \<lparr>hits = Suc (length ms), resetTime = n1 + windowMs opts\<rparr>))"
    by (rule limiter_run_fresh)
  have "fst (limiter_run opts k ((n0 # ns) @ (n1 # ms)) t) =
        map (verdict opts) [0..<Suc (length ns)] @ map (verdict opts) [0..<Suc (length ms)]"
    unfolding limiter_run_append r1 by (simp only: prod.case r2 fst_conv)
  then show "fst (limiter_run opts k ((n0 # ns) @ (n1 # ms)) t) =
                    map (\<lambda>j. if j < max_opt opts then Next
                             else Reply (Json (JNum 429) (message_opt opts)))
                      [0..<Suc (length ns)]
                    @ map (\<lambda>j. if j < max_opt opts then Next
                               else Reply (Json (JNum 429) (message_opt opts)))
                        [0..<Suc (length ms)]"
    by (simp only: verdict_fun)
next
  assume c: "dispatch d now (front (variant d)) req None st0 [] = (Exhausted None, st, tr)
        \<and> mount_match (collab d) ''/api/'' (req_path req)
        \<and> max_opt (limiter_options (variant d))
            < hits_of (increment (limiter_options (variant d)) now (ip req) (counters st)) (ip req)"
  from c limiter_rejects_dispatch[of d now req st0 st tr]
  show "dispatch d now (stack (variant d)) req None st0 [] =
            (Sent (Json (JNum 429) (message_opt (limiter_options (variant d)))),
             st\<lparr>counters := increment (limiter_options (variant d)) now (ip req) (counters st)\<rparr>,
             tr @ [Limiter])"
    by blast
  from c limiter_rejects_dispatch[of d now req st0 st tr]
  show "\<forall>name. Router name \<notin> set (tr @ [Limiter])"
    by blast
qed

theorem rate_limit_window_witness:
  "hits_of (increment (limiter_options Server_js) 0 ''203.0.113.7'' Map.empty) ''203.0.113.7'' = 1
   \<and> \<not> skipFailedRequests (limiter_options Server_js)
   \<and> set (replicate 1200 (0::nat)) = {0}
   \<and> 0 < 0 + windowMs (limiter_options Server_js)
   \<and> fst (limiter_run (limiter_options Server_js) ''203.0.113.7'' (0 # replicate 1200 0) Map.empty)
        ! 1199 = Next
   \<and> fst (limiter_run (limiter_options Server_js) ''203.0.113.7'' (0 # replicate 1200 0) Map.empty)
        ! 1200 = Reply (Json (JNum 429) (message_opt (limiter_options Server_js)))
   \<and> 0 + windowMs (limiter_options Server_js) \<le> 6000000
   \<and> fst (limiter_run (limiter_options Server_js) ''203.0.113.7''
             ((0 # replicate 1200 0) @ (6000000 # replicate 1199 6000000)) Map.empty)
        ! (1201 + 1199) = Next
   \<and> dispatch (example_deploy Server_js) 1000 (front (variant (example_deploy Server_js)))
        (get_request ''/api/user'' []) None
        \<lparr>counters = [''203.0.113.7'' \<mapsto> \<lparr>hits = 1200, resetTime = 6000000\<rparr>],
         res_headers = []\<rparr> []
       = (Exhausted None,
          \<lparr>counters = [''203.0.113.7'' \<mapsto> \<lparr>hits = 1200, resetTime = 6000000\<rparr>],
           res_headers = []\<rparr>,
          [CookieParserSecret, Helmet, Xss, Hpp, CookieParser])
   \<and> dispatch (example_deploy Server_js) 1000 (stack (variant (example_deploy Server_js)))
        (get_request ''/api/user'' []) None
        \<lparr>counters = [''203.0.113.7'' \<mapsto> \<lparr>hits = 1200, resetTime = 6000000\<rparr>],
         res_headers = []\<rparr> []
       = (Sent (Json (JNum 429)
            \<lparr>success = False, message = JStr msg_rate_server_js, errors = None\<rparr>),
          \<lparr>counters = [''203.0.113.7'' \<mapsto> \<lparr>hits = 1201, resetTime = 6000000\<rparr>],
           res_headers = []\<rparr>,
          [CookieParserSecret, Helmet, Xss, Hpp, CookieParser, Limiter])"
proof -
  let ?o = "limiter_options Server_js"
  let ?k = "''203.0.113.7''"
  let ?d = "example_deploy Server_js"
  let ?req = "get_request ''/api/user'' []"
  let ?st = "\<lparr>counters = [?k \<mapsto> \<lparr>hits = 1200, resetTime = 6000000\<rparr>], res_headers = []\<rparr>"
  let ?tr = "[CookieParserSecret, Helmet, Xss, Hpp, CookieParser]"
  let ?f = "\<lambda>j. if j < max_opt ?o then Next else Reply (Json (JNum 429) (message_opt ?o))"
  note T = rate_limit_window
    [where opts = ?o and now = 0 and k = ?k and u = Map.empty and t = Map.empty and ?n0.0 = 0
       and ns = "replicate 1200 0" and ?n1.0 = 6000000 and ms = "replicate 1199 6000000"]
  note D = rate_limit_window
    [where d = ?d and now = 1000 and req = ?req and ?st0.0 = ?st and st = ?st and tr = ?tr]
  have w: "windowMs ?o = 6000000" and m: "max_opt ?o = 1200"
    and ns: "\<not> skipFailedRequests ?o"
    by (simp_all add: limiter_options_def)
  have h1: "\<forall>n \<in> set (replicate 1200 (0::nat)). 0 \<le> n \<and> n < 0 + windowMs ?o"
    by (simp add: w)
  have h2: "\<forall>n \<in> set (replicate 1199 (6000000::nat)). 6000000 \<le> n \<and> n < 6000000 + windowMs ?o"
    by (simp add: w)
  have a: "hits_of (increment ?o 0 ?k Map.empty) ?k = 1"
    using T by simp
  have r1: "fst (limiter_run ?o ?k (0 # replicate 1200 0) Map.empty) = map ?f [0..<1201]"
    using T h1 ns by (simp del: limiter_run.simps upt_Suc upt_rec_numeral)
  have r2: "fst (limiter_run ?o ?k ((0 # replicate 1200 0) @ (6000000 # replicate 1199 6000000))
                  Map.empty) = map ?f [0..<1201] @ map ?f [0..<1200]"
    using T h1 h2 ns
    by (simp del: limiter_run.simps upt_Suc upt_rec_numeral append.simps add: w)
  have b1: "fst (limiter_run ?o ?k (0 # replicate 1200 0) Map.empty) ! 1199 = Next"
    unfolding r1 by (simp add: m del: upt_Suc upt_rec_numeral)
  have b2: "fst (limiter_run ?o ?k (0 # replicate 1200 0) Map.empty) ! 1200
              = Reply (Json (JNum 429) (message_opt ?o))"
    unfolding r1 by (simp add: m del: upt_Suc upt_rec_numeral)
  have b3: "fst (limiter_run ?o ?k ((0 # replicate 1200 0) @ (6000000 # replicate 1199 6000000))
                  Map.empty) ! (1201 + 1199) = Next"
    unfolding r2 by (simp add: m nth_append del: upt_Suc upt_rec_numeral)
  have reach: "dispatch ?d 1000 (front (variant ?d)) ?req None ?st [] = (Exhausted None, ?st, ?tr)"
    by (simp add: ex_defs)
  have mount: "mount_match (collab ?d) ''/api/'' (req_path ?req)"
    by (simp add: ex_defs)
  have over: "max_opt (limiter_options (variant ?d))
        < hits_of (increment (limiter_options (variant ?d)) 1000 (ip ?req) (counters ?st)) (ip ?req)"
    by (simp add: example_deploy_def get_request_def increment_def hits_of_def limiter_options_def)
  have c: "dispatch ?d 1000 (stack (variant ?d)) ?req None ?st [] =
       (Sent (Json (JNum 429)
            \<lparr>success = False, message = JStr msg_rate_server_js, errors = None\<rparr>),
          \<lparr>counters = [?k \<mapsto> \<lparr>hits = 1201, resetTime = 6000000\<rparr>], res_headers = []\<rparr>,
          ?tr @ [Limiter])"
    using D reach mount over
    by (simp add: example_deploy_def get_request_def increment_def limiter_options_def)
  show ?thesis
    using a ns b1 b2 b3 reach c by (simp add: w)
qed

section \<open>The origin policy\<close>

text \<open>
  An \<^verbatim>\<open>Origin\<close> header with an empty value is neither absent nor in the list, and
  the callback allows it: \<^verbatim>\<open>!origin\<close> holds for the empty string.
\<close>

theorem origin_policy_counterexample:
  "header (get_request ''/api/user'' [(''origin'', [])]) ''origin'' = Some []
   \<and> [] \<notin> set (allowedOrigins Server_js Map.empty)
   \<and> origin_callback (allowedOrigins Server_js Map.empty)
        (header (get_request ''/api/user'' [(''origin'', [])]) ''origin'') = Allowed
   \<and> cors_layer (example_deploy Server_js) (get_request ''/api/user'' [(''origin'', [])])
        \<lparr>counters = Map.empty, res_headers = []\<rparr>
       = (Next,
          \<lparr>counters = Map.empty,
           res_headers = [(''Access-Control-Allow-Credentials'', ''true''),
                          (''Access-Control-Expose-Headers'', ''Authorization'')]\<rparr>)"
  by (simp add: ex_defs allowedOrigins_def default_origins_def origin_callback_def
      cors_layer_def grant_headers_def cors_options_def)

text \<open>
  Claim C5, as the code has it. A request without \<^verbatim>\<open>Origin\<close> header, with an empty
  one, or with one that the list of allowed origins includes is allowed: the policy
  writes the headers that grant credentialed access and expose \<^verbatim>\<open>Authorization\<close>,
  and the package goes on. Every other origin is denied: the policy hands
  \<^verbatim>\<open>new Error('CORS Policy Blocks This Request')\<close> to \<^verbatim>\<open>next\<close> and writes
  nothing.
\<close>

theorem origin_policy:
  "(header req ''origin'' = None \<or> header req ''origin'' = Some []
      \<or> (\<exists>s. header req ''origin'' = Some s \<and> s \<in> set (allowedOrigins (variant d) (environ d)))
    \<longrightarrow> cors_layer d req st =
          (cors_continue (collab d) req,
           st\<lparr>res_headers := res_headers st @
                [(''Access-Control-Allow-Credentials'', ''true''),
                 (''Access-Control-Expose-Headers'', ''Authorization'')]\<rparr>))
   \<and> (\<forall>s. header req ''origin'' = Some s \<and> s \<noteq> []
          \<and> s \<notin> set (allowedOrigins (variant d) (environ d))
    \<longrightarrow> cors_layer d req st = (NextErr (new_Error ''CORS Policy Blocks This Request''), st))"
  by (auto simp: cors_layer_def origin_callback_def grant_headers_def cors_options_def)

theorem origin_policy_witness:
  "cors_layer (example_deploy Server_js)
     (get_request ''/api/user'' [(''origin'', ''http://localhost:5173'')])
     \<lparr>counters = Map.empty, res_headers = []\<rparr>
     = (Next,
        \<lparr>counters = Map.empty,
         res_headers = [(''Access-Control-Allow-Credentials'', ''true''),
                        (''Access-Control-Expose-Headers'', ''Authorization'')]\<rparr>)
   \<and> cors_layer (example_deploy Server_js)
       (get_request ''/api/user'' [(''origin'', ''https://evil.example'')])
       \<lparr>counters = Map.empty, res_headers = []\<rparr>
     = (NextErr (new_Error ''CORS Policy Blocks This Request''),
        \<lparr>counters = Map.empty, res_headers = []\<rparr>)"
  using
    origin_policy
      [of "get_request ''/api/user'' [(''origin'', ''http://localhost:5173'')]"
          "example_deploy Server_js" "\<lparr>counters = Map.empty, res_headers = []\<rparr>"]
    origin_policy
      [of "get_request ''/api/user'' [(''origin'', ''https://evil.example'')]"
          "example_deploy Server_js" "\<lparr>counters = Map.empty, res_headers = []\<rparr>"]
  by (simp add: ex_defs allowedOrigins_def default_origins_def)

text \<open>
  Claim C7. A request that reaches the origin policy (no layer before it has answered or
  raised) and whose origin is denied is answered by the error handler, not by the policy:
  the error has no status, so the answer is 500, with the message of the policy's error
  and no \<^verbatim>\<open>errors\<close> key. Between the two no other layer runs.
\<close>

theorem origin_denial_normalized:
  assumes reach: "dispatch d now (front (variant d) @ [(''/api/'', Limiter)]) req None st0 []
                    = (Exhausted None, st, tr)"
      and origin: "header req ''origin'' = Some s" "s \<noteq> []"
                  "s \<notin> set (allowedOrigins (variant d) (environ d))"
  shows "dispatch d now (stack (variant d)) req None st0 [] =
           (Sent (Json (JNum 500)
                    \<lparr>success = False, message = JStr ''CORS Policy Blocks This Request'',
                     errors = None\<rparr>),
            st, tr @ [Cors, ErrorHandler])"
proof -
  let ?e = "new_Error ''CORS Policy Blocks This Request''"
  let ?tail = "[(''/'', ErrorHandler), (''/'', NotFound)]"
  have split: "stack (variant d) =
      (front (variant d) @ [(''/api/'', Limiter)])
      @ ((''/'', Cors) # ((parsers @ statics @ routes) @ ?tail))"
    by (simp add: stack_def)
  have cors: "cors_layer d req st = (NextErr ?e, st)"
    using origin by (simp add: cors_layer_def origin_callback_def)
  have skip: "dispatch d now (parsers @ statics @ routes) req (Some ?e) st (tr @ [Cors])
                = (Exhausted (Some ?e), st, tr @ [Cors])"
    using after_cors_no_error_layer by (rule dispatch_pending_skip)
  have handled: "dispatch d now ?tail req (Some ?e) st (tr @ [Cors]) =
      (Sent (Json (JNum 500)
               \<lparr>success = False, message = JStr ''CORS Policy Blocks This Request'',
                errors = None\<rparr>),
       st, tr @ [Cors, ErrorHandler])"
    by (simp add: applies_root error_handler_cors_error answered_def)
  have "dispatch d now (stack (variant d)) req None st0 [] =
        dispatch d now ((''/'', Cors) # ((parsers @ statics @ routes) @ ?tail)) req None st tr"
    unfolding split using reach by (rule dispatch_append)
  also have "\<dots> = dispatch d now ((parsers @ statics @ routes) @ ?tail) req (Some ?e) st (tr @ [Cors])"
    by (simp add: applies_root cors)
  also have "\<dots> = dispatch d now ?tail req (Some ?e) st (tr @ [Cors])"
    using skip by (rule dispatch_append)
  finally show ?thesis using handled by simp
qed

theorem origin_denial_normalized_witness:
  "dispatch (example_deploy Server_js) 0
     (front (variant (example_deploy Server_js)) @ [(''/api/'', Limiter)])
     (get_request ''/nowhere'' [(''origin'', ''https://evil.example'')]) None
     \<lparr>counters = Map.empty, res_headers = []\<rparr> []
     = (Exhausted None, \<lparr>counters = Map.empty, res_headers = []\<rparr>,
        [CookieParserSecret, Helmet, Xss, Hpp, CookieParser])
   \<and> header (get_request ''/nowhere'' [(''origin'', ''https://evil.example'')]) ''origin''
       = Some ''https://evil.example''
   \<and> ''https://evil.example'' \<noteq> []
   \<and> ''https://evil.example''
       \<notin> set (allowedOrigins (variant (example_deploy Server_js))
                (environ (example_deploy Server_js)))
   \<and> dispatch (example_deploy Server_js) 0 (stack (variant (example_deploy Server_js)))
       (get_request ''/nowhere'' [(''origin'', ''https://evil.example'')]) None
       \<lparr>counters = Map.empty, res_headers = []\<rparr> []
     = (Sent (Json (JNum 500)
          \<lparr>success = False, message = JStr ''CORS Policy Blocks This Request'',
           errors = None\<rparr>),
        \<lparr>counters = Map.empty, res_headers = []\<rparr>,
        [CookieParserSecret, Helmet, Xss, Hpp, CookieParser] @ [Cors, ErrorHandler])"
proof -
  have reach: "dispatch (example_deploy Server_js) 0
     (front (variant (example_deploy Server_js)) @ [(''/api/'', Limiter)])
     (get_request ''/nowhere'' [(''origin'', ''https://evil.example'')]) None
     \<lparr>counters = Map.empty, res_headers = []\<rparr> []
     = (Exhausted None, \<lparr>counters = Map.empty, res_headers = []\<rparr>,
        [CookieParserSecret, Helmet, Xss, Hpp, CookieParser])"
    by (simp add: ex_defs)
  have h: "header (get_request ''/nowhere'' [(''origin'', ''https://evil.example'')]) ''origin''
       = Some ''https://evil.example''"
    by (simp add: ex_defs)
  have ne: "''https://evil.example'' \<noteq> []" by simp
  have out: "''https://evil.example''
       \<notin> set (allowedOrigins (variant (example_deploy Server_js))
                (environ (example_deploy Server_js)))"
    by (simp add: example_deploy_def allowedOrigins_def default_origins_def)
  show ?thesis
    using reach h ne out origin_denial_normalized[OF reach h ne out] by simp
qed

section \<open>The 404 handler\<close>

lemma unrouted_falls_to_not_found:
  assumes u: "unrouted d req"
      and p: "passes_through d req"
      and o: "origin_callback (allowedOrigins (variant d) (environ d)) (header req ''origin'')
                = Allowed"
  shows "dispatch d now (stack (variant d)) req None st0 [] =
           (Sent (Json (JNum 404)
              \<lparr>success = False, message = JStr (not_found_message (variant d) req),
               errors = None\<rparr>),
            st0\<lparr>res_headers := res_headers st0 @ grant_headers cors_options\<rparr>,
            map snd (front (variant d)) @ [Cors, JsonBody, UrlencodedBody, NotFound])"
proof -
  have api: "\<not> applies d ''/api/'' req"
    using u by (simp add: unrouted_def statics_def routes_def)
  have fr: "dispatch d now (front (variant d)) req None st0 [] =
              (Exhausted None, st0, map snd (front (variant d)))"
    using p by (cases "variant d") (simp_all add: passes_through_def front_def applies_root)
  have mid: "dispatch d now ([(''/api/'', Limiter)] @ [(''/'', Cors)] @ parsers) req None st0
                (map snd (front (variant d))) =
              (Exhausted None, st0\<lparr>res_headers := res_headers st0 @ grant_headers cors_options\<rparr>,
               map snd (front (variant d)) @ [Cors, JsonBody, UrlencodedBody])"
    using p o api by (simp add: passes_through_def parsers_def applies_root cors_layer_def)
  have rt: "dispatch d now (statics @ routes) req None st tr = (Exhausted None, st, tr)" for st tr
    using u by (simp add: unrouted_def statics_def routes_def)
  have tl: "dispatch d now ([(''/'', ErrorHandler)] @ [(''/'', NotFound)]) req None st tr =
      (Sent (Json (JNum 404)
              \<lparr>success = False, message = JStr (not_found_message (variant d) req),
               errors = None\<rparr>), st, tr @ [NotFound])" for st tr
    by (simp add: applies_root not_found_answer)
  let ?B = "[(''/api/'', Limiter)] @ [(''/'', Cors)] @ parsers"
  let ?C = "statics @ routes"
  let ?D = "[(''/'', ErrorHandler)] @ [(''/'', NotFound)]"
  let ?tr = "map snd (front (variant d))"
  let ?st = "st0\<lparr>res_headers := res_headers st0 @ grant_headers cors_options\<rparr>"
  have "dispatch d now (stack (variant d)) req None st0 [] =
        dispatch d now (front (variant d) @ (?B @ (?C @ ?D))) req None st0 []"
    by (simp add: stack_def)
  also have "\<dots> = dispatch d now (?B @ (?C @ ?D)) req None st0 ?tr"
    using fr by (rule dispatch_append)
  also have "\<dots> = dispatch d now (?C @ ?D) req None ?st (?tr @ [Cors, JsonBody, UrlencodedBody])"
    using mid by (rule dispatch_append)
  also have "\<dots> = dispatch d now ?D req None ?st (?tr @ [Cors, JsonBody, UrlencodedBody])"
    using rt by (rule dispatch_append)
  also have "\<dots> = (Sent (Json (JNum 404)
              \<lparr>success = False, message = JStr (not_found_message (variant d) req),
               errors = None\<rparr>), ?st, (?tr @ [Cors, JsonBody, UrlencodedBody]) @ [NotFound])"
    by (rule tl)
  finally show ?thesis by simp
qed

text \<open>
  Claim C8. On every request the 404 handler answers 404 with \<^verbatim>\<open>success: false\<close>
  and the not-found message, to which \<^verbatim>\<open>part_001\<close> appends the requested URL. It is the
  last layer of the stack, after every route mount and after the error handler. It is
  reached by a request that no layer before it has answered or failed; such is a request
  that no static or route mount matches, that the collaborators mounted on all paths hand
  on, and whose origin is allowed.
\<close>

theorem not_found_responder:
  "not_found_handler (variant d) req r =
     r\<lparr>statusCode := JNum 404,
       sent := sent r @
         [(JNum 404,
           \<lparr>success = False,
            message = JStr (if variant d = Part_001 then msg_not_found @ '': '' @ originalUrl req
                            else msg_not_found),
            errors = None\<rparr>)]\<rparr>
   \<and> stack (variant d) = butlast (stack (variant d)) @ [(''/'', NotFound)]
   \<and> set routes \<subseteq> set (butlast (stack (variant d)))
   \<and> (''/'', ErrorHandler) \<in> set (butlast (stack (variant d)))
   \<and> (dispatch d now (butlast (stack (variant d))) req None st0 [] = (Exhausted None, st, tr)
        \<longrightarrow> dispatch d now (stack (variant d)) req None st0 [] =
              (Sent (Json (JNum 404)
                 \<lparr>success = False,
                  message = JStr (if variant d = Part_001
                                  then msg_not_found @ '': '' @ originalUrl req
                                  else msg_not_found),
                  errors = None\<rparr>),
               st, tr @ [NotFound]))
   \<and> (unrouted d req \<and> passes_through d req
        \<and> origin_callback (allowedOrigins (variant d) (environ d)) (header req ''origin'')
            = Allowed
        \<longrightarrow> dispatch d now (stack (variant d)) req None st0 [] =
              (Sent (Json (JNum 404)
                 \<lparr>success = False,
                  message = JStr (if variant d = Part_001
                                  then msg_not_found @ '': '' @ originalUrl req
                                  else msg_not_found),
                  errors = None\<rparr>),
               st0\<lparr>res_headers := res_headers st0 @ grant_headers cors_options\<rparr>,
               map snd (front (variant d)) @ [Cors, JsonBody, UrlencodedBody, NotFound]))"
proof -
  have msg: "not_found_message (variant d) req =
      (if variant d = Part_001 then msg_not_found @ '': '' @ originalUrl req else msg_not_found)"
    by (cases "variant d") (simp_all add: not_found_message_def)
  have h: "not_found_handler (variant d) req r =
     r\<lparr>statusCode := JNum 404,
       sent := sent r @
         [(JNum 404,
           \<lparr>success = False, message = JStr (not_found_message (variant d) req),
            errors = None\<rparr>)]\<rparr>"
    by (simp add: not_found_handler_def res_json_def res_status_def)
  have bl: "butlast (stack (variant d)) =
      front (variant d) @ [(''/api/'', Limiter)] @ [(''/'', Cors)] @ parsers @ statics @ routes
      @ [(''/'', ErrorHandler)]"
    by (simp add: stack_def butlast_append)
  have last: "stack (variant d) = butlast (stack (variant d)) @ [(''/'', NotFound)]"
    unfolding bl by (simp add: stack_def)
  have d: "dispatch d now (stack (variant d)) req None st0 [] =
              (Sent (Json (JNum 404)
                 \<lparr>success = False, message = JStr (not_found_message (variant d) req),
                  errors = None\<rparr>),
               st, tr @ [NotFound])"
    if reach: "dispatch d now (butlast (stack (variant d))) req None st0 [] = (Exhausted None, st, tr)"
  proof -
    have "dispatch d now (butlast (stack (variant d)) @ [(''/'', NotFound)]) req None st0 [] =
          dispatch d now [(''/'', NotFound)] req None st tr"
      using reach by (rule dispatch_append)
    then show ?thesis
      using last by (simp add: applies_root not_found_answer)
  qed
  have c1: "not_found_handler (variant d) req r =
     r\<lparr>statusCode := JNum 404,
       sent := sent r @
         [(JNum 404,
           \<lparr>success = False,
            message = JStr (if variant d = Part_001 then msg_not_found @ '': '' @ originalUrl req
                            else msg_not_found),
            errors = None\<rparr>)]\<rparr>"
    using h msg by simp
  have c3: "set routes \<subseteq> set (butlast (stack (variant d)))"
    unfolding bl by auto
  have c4: "(''/'', ErrorHandler) \<in> set (butlast (stack (variant d)))"
    unfolding bl by simp
  have c5: "dispatch d now (butlast (stack (variant d))) req None st0 [] = (Exhausted None, st, tr)
        \<longrightarrow> dispatch d now (stack (variant d)) req None st0 [] =
              (Sent (Json (JNum 404)
                 \<lparr>success = False,
                  message = JStr (if variant d = Part_001
                                  then msg_not_found @ '': '' @ originalUrl req
                                  else msg_not_found),
                  errors = None\<rparr>),
               st, tr @ [NotFound])"
    using d msg by simp
  have c6: "unrouted d req \<and> passes_through d req
        \<and> origin_callback (allowedOrigins (variant d) (environ d)) (header req ''origin'')
            = Allowed
        \<longrightarrow> dispatch d now (stack (variant d)) req None st0 [] =
              (Sent (Json (JNum 404)
                 \<lparr>success = False,
                  message = JStr (if variant d = Part_001
                                  then msg_not_found @ '': '' @ originalUrl req
                                  else msg_not_found),
                  errors = None\<rparr>),
               st0\<lparr>res_headers := res_headers st0 @ grant_headers cors_options\<rparr>,
               map snd (front (variant d)) @ [Cors, JsonBody, UrlencodedBody, NotFound])"
    using unrouted_falls_to_not_found[of d req now st0] msg by simp
  show ?thesis
    by (rule conjI[OF c1 conjI[OF last conjI[OF c3 conjI[OF c4 conjI[OF c5 c6]]]]])
qed

theorem not_found_responder_witness:
  "dispatch (example_deploy Part_001) 0 (butlast (stack (variant (example_deploy Part_001))))
     (get_request ''/api/unknown'' []) None \<lparr>counters = Map.empty, res_headers = []\<rparr> []
     = (Exhausted None,
        \<lparr>counters = [''203.0.113.7'' \<mapsto> \<lparr>hits = 1, resetTime = 900000\<rparr>],
         res_headers = [(''Access-Control-Allow-Credentials'', ''true''),
                        (''Access-Control-Expose-Headers'', ''Authorization'')]\<rparr>,
        [CookieParserSecret, Helmet, Xss, Hpp, CookieParser, Limiter, Cors, JsonBody,
         UrlencodedBody, Router ''file'', Router ''activity'', Router ''planactivity'',
         Router ''contact''])
   \<and> dispatch (example_deploy Part_001) 0 (stack (variant (example_deploy Part_001)))
       (get_request ''/api/unknown'' []) None \<lparr>counters = Map.empty, res_headers = []\<rparr> []
     = (Sent (Json (JNum 404)
          \<lparr>success = False, message = JStr (msg_not_found @ '': /api/unknown''),
           errors = None\<rparr>),
        \<lparr>counters = [''203.0.113.7'' \<mapsto> \<lparr>hits = 1, resetTime = 900000\<rparr>],
         res_headers = [(''Access-Control-Allow-Credentials'', ''true''),
                        (''Access-Control-Expose-Headers'', ''Authorization'')]\<rparr>,
        [CookieParserSecret, Helmet, Xss, Hpp, CookieParser, Limiter, Cors, JsonBody,
         UrlencodedBody, Router ''file'', Router ''activity'', Router ''planactivity'',
         Router ''contact''] @ [NotFound])
   \<and> unrouted (example_deploy Server_js) (get_request ''/nowhere?x=1'' [])
   \<and> passes_through (example_deploy Server_js) (get_request ''/nowhere?x=1'' [])
   \<and> origin_callback
         (allowedOrigins (variant (example_deploy Server_js)) (environ (example_deploy Server_js)))
         (header (get_request ''/nowhere?x=1'' []) ''origin'') = Allowed
   \<and> dispatch (example_deploy Server_js) 0 (stack (variant (example_deploy Server_js)))
       (get_request ''/nowhere?x=1'' []) None \<lparr>counters = Map.empty, res_headers = []\<rparr> []
     = (Sent (Json (JNum 404)
          \<lparr>success = False, message = JStr msg_not_found, errors = None\<rparr>),
        \<lparr>counters = Map.empty,
         res_headers = [(''Access-Control-Allow-Credentials'', ''true''),
                        (''Access-Control-Expose-Headers'', ''Authorization'')]\<rparr>,
        [CookieParserSecret, Helmet, Xss, Hpp, CookieParser, Cors, JsonBody, UrlencodedBody,
         NotFound])"
proof -
  have u: "unrouted (example_deploy Server_js) (get_request ''/nowhere?x=1'' [])"
    by (simp add: unrouted_def ex_defs)
  have p: "passes_through (example_deploy Server_js) (get_request ''/nowhere?x=1'' [])"
    by (simp add: passes_through_def example_deploy_def pass_on_def)
  have o: "origin_callback
         (allowedOrigins (variant (example_deploy Server_js)) (environ (example_deploy Server_js)))
         (header (get_request ''/nowhere?x=1'' []) ''origin'') = Allowed"
    by (simp add: origin_callback_def ex_defs)
  have second: "dispatch (example_deploy Server_js) 0 (stack (variant (example_deploy Server_js)))
       (get_request ''/nowhere?x=1'' []) None \<lparr>counters = Map.empty, res_headers = []\<rparr> []
     = (Sent (Json (JNum 404)
          \<lparr>success = False, message = JStr msg_not_found, errors = None\<rparr>),
        \<lparr>counters = Map.empty,
         res_headers = [(''Access-Control-Allow-Credentials'', ''true''),
                        (''Access-Control-Expose-Headers'', ''Authorization'')]\<rparr>,
        [CookieParserSecret, Helmet, Xss, Hpp, CookieParser, Cors, JsonBody, UrlencodedBody,
         NotFound])"
    using u p o
      not_found_responder
        [of "example_deploy Server_js" "get_request ''/nowhere?x=1'' []" res_init 0
            "\<lparr>counters = Map.empty, res_headers = []\<rparr>"
            "\<lparr>counters = Map.empty, res_headers = []\<rparr>" "[]"]
    by (simp add: example_deploy_def front_def grant_headers_def cors_options_def)
  have reach: "dispatch (example_deploy Part_001) 0
     (butlast (stack (variant (example_deploy Part_001))))
     (get_request ''/api/unknown'' []) None \<lparr>counters = Map.empty, res_headers = []\<rparr> []
     = (Exhausted None,
        \<lparr>counters = [''203.0.113.7'' \<mapsto> \<lparr>hits = 1, resetTime = 900000\<rparr>],
         res_headers = [(''Access-Control-Allow-Credentials'', ''true''),
                        (''Access-Control-Expose-Headers'', ''Authorization'')]\<rparr>,
        [CookieParserSecret, Helmet, Xss, Hpp, CookieParser, Limiter, Cors, JsonBody,
         UrlencodedBody, Router ''file'', Router ''activity'', Router ''planactivity'',
         Router ''contact''])"
    by (simp add: ex_defs limiter_def increment_def hits_of_def limiter_options_def
        cors_layer_def origin_callback_def grant_headers_def cors_options_def)
  show ?thesis
    using u p o second reach
      not_found_responder
        [of "example_deploy Part_001" "get_request ''/api/unknown'' []" res_init 0
            "\<lparr>counters = Map.empty, res_headers = []\<rparr>"
            "\<lparr>counters = [''203.0.113.7'' \<mapsto> \<lparr>hits = 1, resetTime = 900000\<rparr>],
              res_headers = [(''Access-Control-Allow-Credentials'', ''true''),
                             (''Access-Control-Expose-Headers'', ''Authorization'')]\<rparr>"
            "[CookieParserSecret, Helmet, Xss, Hpp, CookieParser, Limiter, Cors, JsonBody,
              UrlencodedBody, Router ''file'', Router ''activity'', Router ''planactivity'',
              Router ''contact'']"]
    by (simp add: example_deploy_def get_request_def)
qed

section \<open>Where the limiter is mounted\<close>

lemma under_mount_api:
  "under_mount ''/api/'' p = (map lower p = ''/api'' \<or> take 5 (map lower p) = ''/api/'')"
  by (simp add: under_mount_def mount_stem_def lower_Char eval_nat_numeral)

text \<open>
  Two requests whose path does not begin with \<^verbatim>\<open>/api/\<close> and that the limiter counts
  all the same, with the framework's path matching. \<^verbatim>\<open>GET /api\<close> from a client that
  the table does not hold: the limiter runs and the table holds one hit for the client
  afterwards. \<^verbatim>\<open>GET /API/user\<close> from a client that has used up the 200 requests of
  its window: the answer is the limiter's 429.
\<close>

theorem limiter_mount_frame_counterexample:
  "origin_form (originalUrl (get_request ''/api'' []))
   \<and> take 5 (req_path (get_request ''/api'' [])) \<noteq> ''/api/''
   \<and> counters_after (example_deploy Server_js) 5 (get_request ''/api'' []) Map.empty
       = [''203.0.113.7'' \<mapsto> \<lparr>hits = 1, resetTime = 6000005\<rparr>]
   \<and> Limiter \<in> set (layers_run (example_deploy Server_js) 5 (get_request ''/api'' []) Map.empty)
   \<and> origin_form (originalUrl (get_request ''/API/user'' []))
   \<and> take 5 (req_path (get_request ''/API/user'' [])) \<noteq> ''/api/''
   \<and> fst (handle_request (example_deploy Part_001) 5 (get_request ''/API/user'' [])
        [''203.0.113.7'' \<mapsto> \<lparr>hits = 200, resetTime = 900000\<rparr>])
       = Sent (Json (JNum 429)
                \<lparr>success = False, message = JStr msg_rate_part_001, errors = None\<rparr>)"
  by (simp add: ex_defs counters_after_def layers_run_def handle_request_def limiter_def
      increment_def hits_of_def limiter_options_def cors_layer_def origin_callback_def
      not_found_handler_def answered_def res_json_def res_status_def res_init_def
      origin_form_def)

text \<open>
  Claim C9, as the code has it. The limiter is mounted on \<^verbatim>\<open>/api/\<close> only, and the
  framework matches a mount without regard to the case of the letters and with the slash
  at its end optional. For a request in origin form whose path, in lower case, neither
  is \<^verbatim>\<open>/api\<close> nor begins with \<^verbatim>\<open>/api/\<close>, whatever the table holds for its
  client, the table after the request is the table before it and the limiter is not among
  the layers that ran, so no answer to this request is the limiter's.
\<close>

theorem limiter_mount_frame:
  assumes matcher: "mount_match (collab d) = under_mount"
      and target: "origin_form (originalUrl req)"
      and outside: "map lower (req_path req) \<noteq> ''/api''"
                   "take 5 (map lower (req_path req)) \<noteq> ''/api/''"
  shows "counters_after d now req t = t \<and> Limiter \<notin> set (layers_run d now req t)"
proof -
  obtain o' st' tr' where disp:
    "dispatch d now (stack (variant d)) req None \<lparr>counters = t, res_headers = []\<rparr> [] = (o', st', tr')"
    by (cases "dispatch d now (stack (variant d)) req None \<lparr>counters = t, res_headers = []\<rparr> []") auto
  have "\<not> mount_match (collab d) ''/api/'' (req_path req)"
    using outside by (simp add: matcher under_mount_api)
  then have "\<forall>l \<in> set (stack (variant d)). snd l = Limiter \<longrightarrow> \<not> applies d (fst l) req"
    by (cases "variant d")
       (auto simp: stack_def front_def parsers_def statics_def routes_def applies_def)
  from dispatch_limiter_frame[OF this disp]
  have "counters st' = t" and "Limiter \<notin> set tr'" by auto
  with disp show ?thesis
    by (simp add: counters_after_def layers_run_def handle_request_def)
qed

theorem limiter_mount_frame_witness:
  "mount_match (collab (example_deploy Part_000)) = under_mount
   \<and> origin_form (originalUrl (get_request ''/uploads/a.png'' []))
   \<and> map lower (req_path (get_request ''/uploads/a.png'' [])) \<noteq> ''/api''
   \<and> take 5 (map lower (req_path (get_request ''/uploads/a.png'' []))) \<noteq> ''/api/''
   \<and> counters_after (example_deploy Part_000) 5 (get_request ''/uploads/a.png'' [])
        [''203.0.113.7'' \<mapsto> \<lparr>hits = 1000, resetTime = 900000\<rparr>]
       = [''203.0.113.7'' \<mapsto> \<lparr>hits = 1000, resetTime = 900000\<rparr>]
   \<and> Limiter \<notin> set (layers_run (example_deploy Part_000) 5 (get_request ''/uploads/a.png'' [])
        [''203.0.113.7'' \<mapsto> \<lparr>hits = 1000, resetTime = 900000\<rparr>])
   \<and> origin_form (originalUrl (get_request ''/apix/y?page=2'' []))
   \<and> map lower (req_path (get_request ''/apix/y?page=2'' [])) \<noteq> ''/api''
   \<and> take 5 (map lower (req_path (get_request ''/apix/y?page=2'' []))) \<noteq> ''/api/''
   \<and> counters_after (example_deploy Part_000) 5 (get_request ''/apix/y?page=2'' [])
        [''203.0.113.7'' \<mapsto> \<lparr>hits = 1000, resetTime = 900000\<rparr>]
       = [''203.0.113.7'' \<mapsto> \<lparr>hits = 1000, resetTime = 900000\<rparr>]
   \<and> Limiter \<notin> set (layers_run (example_deploy Part_000) 5 (get_request ''/apix/y?page=2'' [])
        [''203.0.113.7'' \<mapsto> \<lparr>hits = 1000, resetTime = 900000\<rparr>])"
  using
    limiter_mount_frame
      [of "example_deploy Part_000" "get_request ''/uploads/a.png'' []" 5
          "[''203.0.113.7'' \<mapsto> \<lparr>hits = 1000, resetTime = 900000\<rparr>]"]
    limiter_mount_frame
      [of "example_deploy Part_000" "get_request ''/apix/y?page=2'' []" 5
          "[''203.0.113.7'' \<mapsto> \<lparr>hits = 1000, resetTime = 900000\<rparr>]"]
  by (simp add: example_deploy_def pass_on_def get_request_def req_path_def lower_Char
      origin_form_def)

section \<open>The cookie secret\<close>

text \<open>
  Claim C10. The secret given to the cookie parser is never empty. Without
  \<^verbatim>\<open>COOKIE_SECRET\<close> in the environment it is \<^verbatim>\<open>'your-secret-key-123'\<close>, which
  the first layer is created with; start-up goes the same way as with the variable set,
  and it reaches the listener whenever the database answers and no required variable is
  missing (\<^verbatim>\<open>server.js\<close> and \<^verbatim>\<open>part_000\<close> require none).
\<close>

theorem cookie_secret_fallback:
  "COOKIE_SECRET e \<noteq> []
   \<and> (e ''COOKIE_SECRET'' = None \<longrightarrow>
        COOKIE_SECRET e = ''your-secret-key-123''
        \<and> boot v e db_ok = boot v (e(''COOKIE_SECRET'' \<mapsto> s)) db_ok
        \<and> (db_ok \<and> (\<forall>k \<in> set (required_env v). \<exists>x. e k = Some x \<and> x \<noteq> [])
             \<longrightarrow> boot v e db_ok = Listening))
   \<and> (environ d ''COOKIE_SECRET'' = None \<longrightarrow>
        run_layer d now CookieParserSecret req st =
          (cookieParser (collab d) (Some ''your-secret-key-123'') req, st))"
  by (cases v) (auto simp: COOKIE_SECRET_def env_or_def boot_def env_missing_def
      startServer_def required_env_def split: option.splits)

theorem cookie_secret_fallback_witness:
  "COOKIE_SECRET Map.empty = ''your-secret-key-123''
   \<and> boot Server_js Map.empty True = Listening
   \<and> boot Part_000 Map.empty True = Listening
   \<and> run_layer (example_deploy Server_js) 0 CookieParserSecret (get_request ''/'' [])
        \<lparr>counters = Map.empty, res_headers = []\<rparr>
       = (cookieParser pass_on (Some ''your-secret-key-123'') (get_request ''/'' []),
          \<lparr>counters = Map.empty, res_headers = []\<rparr>)"
  using
    cookie_secret_fallback
      [of Map.empty Server_js True "[]" "example_deploy Server_js" 0 "get_request ''/'' []"
          "\<lparr>counters = Map.empty, res_headers = []\<rparr>"]
    cookie_secret_fallback
      [of Map.empty Part_000 True "[]" "example_deploy Server_js" 0 "get_request ''/'' []"
          "\<lparr>counters = Map.empty, res_headers = []\<rparr>"]
  by (simp add: required_env_def example_deploy_def boot_def env_missing_def startServer_def)

end
